theory Spec2Isabelle
  imports Main "HOL-Library.Sublist"
begin

section \<open>Data model (models.py)\<close>

text \<open>
  Python \<open>bytes\<close> and \<open>str\<close> values are byte strings. An exception is represented
  by its message \<open>str(e)\<close>: every handler of the program catches \<open>Exception\<close> and
  reads nothing but that message, so a fallible computation has type
  \<open>string + 'a\<close> with \<open>Inl\<close> carrying the message.
\<close>

type_synonym bytes = string

text \<open>
  The columns of \<open>GeneratedImage\<close>. \<open>original_image_data\<close> is declared
  \<open>nullable=False\<close>; the other binary columns, \<open>breed_detected\<close>,
  \<open>error_message\<close>, \<open>batch_id\<close> and \<open>pipeline_type\<close> are nullable.
  \<open>created_at\<close> plays no part in the functions modelled here and is left out.
\<close>

record generated_image =
  user_id :: nat
  original_image_data :: bytes
  breed_detected :: "string option"
  status :: string
  error_message :: "string option"
  image_1_data :: "bytes option"
  image_2_data :: "bytes option"
  final_dog_image_data :: "bytes option"
  batch_id :: "string option"
  pipeline_type :: "string option"

text \<open>The committed table: primary key to row.\<close>

type_synonym db = "nat \<rightharpoonup> generated_image"

section \<open>Image retrieval (app.py, serve_image)\<close>

text \<open>
  The four ways the view returns: the \<open>login_required\<close> decorator sends an
  anonymous request to the login page (flashing the configured login message on the
  way), \<open>get_or_404\<close> aborts on a missing row,
  a rejected request flashes a message (text and category) and redirects to the
  dashboard, and a served image is a \<open>Response\<close> with its bytes and mimetype.
\<close>

datatype response =
    RedirectLogin
  | NotFound404
  | RedirectDashboard string string
  | ImageResponse bytes string

text \<open>Python truthiness of an optional byte string: \<open>None\<close> and \<open>b''\<close> are falsy.\<close>

fun truthy :: "string option \<Rightarrow> bool" where
  "truthy None = False"
| "truthy (Some s) = (s \<noteq> [])"

text \<open>
  The \<open>if/elif/else\<close> chain on \<open>image_type\<close>; \<open>None\<close> is the final \<open>else\<close>
  branch (no slot of that name).
\<close>

definition select_slot :: "generated_image \<Rightarrow> string \<Rightarrow> bytes option option" where
  "select_slot image_record image_type =
     (if image_type = ''original'' then Some (Some (original_image_data image_record))
      else if image_type = ''transition1'' then Some (image_1_data image_record)
      else if image_type = ''transition2'' then Some (image_2_data image_record)
      else if image_type = ''final'' then Some (final_dog_image_data image_record)
      else None)"

definition serve_image :: "db \<Rightarrow> nat option \<Rightarrow> nat \<Rightarrow> string \<Rightarrow> response" where
  "serve_image d current_user image_id image_type =
     (case current_user of
        None \<Rightarrow> RedirectLogin
      | Some uid \<Rightarrow>
          (case d image_id of
             None \<Rightarrow> NotFound404
           | Some image_record \<Rightarrow>
               if user_id image_record \<noteq> uid
               then RedirectDashboard ''Unauthorized access'' ''error''
               else (case select_slot image_record image_type of
                       None \<Rightarrow> RedirectDashboard ''Invalid image type'' ''error''
                     | Some image_data \<Rightarrow>
                         if \<not> truthy image_data
                         then RedirectDashboard ''Image not found'' ''error''
                         else ImageResponse (the image_data) ''image/png'')))"

text \<open>A small table used to exercise the theorems on concrete requests.\<close>

definition sample_row :: generated_image where
  "sample_row =
     \<lparr> user_id = 7, original_image_data = ''PNG0'', breed_detected = Some ''beagle'',
       status = ''generating_2'', error_message = None, image_1_data = Some ''PNG1'',
       image_2_data = None, final_dog_image_data = None, batch_id = None,
       pipeline_type = Some ''gpt_only'' \<rparr>"

definition sample_db :: db where
  "sample_db = Map.empty (3 \<mapsto> sample_row)"

section \<open>Python string operations\<close>

text \<open>
  Strings are modelled as ASCII byte strings; \<open>str.lower\<close> maps the letters
  \<open>A\<close> to \<open>Z\<close> to lower case and leaves every other character alone.
\<close>

definition lower_char :: "char \<Rightarrow> char" where
  "lower_char c =
     (case map_of (zip ''ABCDEFGHIJKLMNOPQRSTUVWXYZ'' ''abcdefghijklmnopqrstuvwxyz'') c of
        None \<Rightarrow> c
      | Some l \<Rightarrow> l)"

definition lower :: "string \<Rightarrow> string" where
  "lower s = map lower_char s"

text \<open>\<open>needle in haystack\<close> on strings.\<close>

fun contains :: "string \<Rightarrow> string \<Rightarrow> bool" where
  "contains needle [] = (needle = [])"
| "contains needle (c # cs) = (prefix needle (c # cs) \<or> contains needle cs)"

section \<open>The external world\<close>

text \<open>
  A decoded picture is described by its colour mode, its size and the file content its
  pixels came from; the pixels themselves are not modelled. A PNG file on disk is a
  picture together with the byte size of its encoding.
\<close>

record picture =
  pic_mode :: string
  pic_width :: nat
  pic_height :: nat
  pic_source :: bytes

record png_file =
  file_picture :: picture
  file_size :: nat

text \<open>
  A mask is an RGBA image described by how it was drawn: its side, the colour it was
  filled with by \<open>Image.new\<close>, and the ellipses drawn over it with
  \<open>ImageDraw.ellipse\<close>, oldest first, each with its bounding box
  \<open>[left, top, right, bottom]\<close> and fill colour.
\<close>

type_synonym rgba = "nat \<times> nat \<times> nat \<times> nat"
type_synonym box = "int \<times> int \<times> int \<times> int"

record mask =
  mask_size :: nat
  mask_background :: rgba
  mask_ellipses :: "(box \<times> rgba) list"

text \<open>The arguments of \<open>client.images.edit\<close>; DALL-E 2 is the call without a model.\<close>

record edit_request =
  req_model :: "string option"
  req_image :: png_file
  req_mask :: mask
  req_prompt :: string
  req_size :: string

text \<open>
  One entry of \<open>response.data\<close> and the response itself (\<open>data\<close> may be
  missing or \<open>None\<close>); each carries the text Python prints for it, and the entry also
  the text of \<open>dir(data_item)\<close>, which the error messages quote.
\<close>

record data_item =
  item_url :: "string option"
  item_b64_json :: "string option"
  item_repr :: string
  item_dir :: string

record edit_response =
  resp_data :: "data_item list option"
  resp_repr :: string

text \<open>
  Everything outside the program: the configured credential and the environment
  variable, the image codec (PIL), the two remote endpoints, HTTP download, base64
  decoding and the random source. A call that raises returns \<open>Inl\<close> of the
  exception's message.
  \<^item> \<open>pil_open\<close> is \<open>Image.open\<close> on a file's content.
  \<^item> \<open>png_save_size\<close> is the byte size of \<open>img.save(path, format='PNG', optimize=True)\<close>.
  \<^item> \<open>pil_thumbnail\<close> is \<open>img.thumbnail((n, n), LANCZOS)\<close>.
  \<^item> \<open>chat_create\<close> is \<open>client.chat.completions.create\<close> for a model name and the
    picture sent; it yields the \<open>message.content\<close> of each choice.
  \<^item> \<open>images_edit\<close> is \<open>client.images.edit\<close>.
  \<^item> \<open>http_get\<close> is \<open>requests.get(url)\<close>, \<open>raise_for_status()\<close> and \<open>.content\<close>.
  \<^item> \<open>b64decode\<close> is \<open>base64.b64decode\<close>.
  \<^item> \<open>random_index\<close> is the draw behind \<open>random.choice\<close>.
  \<^item> \<open>non_ascii_choice\<close> stands for Python's Unicode tables: for a response text with
    a character outside ASCII it gives the position, in the list of keys, of the key the
    classifier's parsing selects (see \<open>select_breed\<close>).
  Creating, writing and deleting temporary files is taken to succeed, so a path stands
  for the content written to it.
\<close>

record world =
  config_api_key :: "string option"
  environ_api_key :: "string option"
  pil_open :: "bytes \<Rightarrow> string + picture"
  png_save_size :: "picture \<Rightarrow> nat"
  pil_thumbnail :: "picture \<Rightarrow> nat \<Rightarrow> picture"
  chat_create :: "string \<Rightarrow> picture \<Rightarrow> string + string option list"
  images_edit :: "edit_request \<Rightarrow> string + edit_response"
  http_get :: "string option \<Rightarrow> string + bytes"
  b64decode :: "string \<Rightarrow> string + bytes"
  random_index :: nat
  non_ascii_choice :: "string \<Rightarrow> nat"

text \<open>\<open>Config.OPENAI_API_KEY or os.environ.get('OPENAI_API_KEY')\<close>.\<close>

definition get_api_key :: "world \<Rightarrow> string option" where
  "get_api_key w = (if truthy (config_api_key w) then config_api_key w else environ_api_key w)"

definition api_key_error :: string where
  "api_key_error = ''OPENAI_API_KEY is not set. Please check your .env file.''"

section \<open>Mask Generator (image_processing.py)\<close>

text \<open>
  The sizes are computed in Python as \<open>int(target_size * 0.5)\<close> and the like. For a
  size below \<open>2^50\<close> the double product truncates to the floor of the exact
  product, so \<open>int(s * 0.5)\<close> is \<open>s div 2\<close>, \<open>int(s * 0.2)\<close> is \<open>s div 5\<close>,
  \<open>int(s * 0.65)\<close> is \<open>13 * s div 20\<close>, \<open>int(s * 0.05)\<close> is \<open>s div 20\<close>,
  \<open>int(s * 0.75)\<close> is \<open>3 * s div 4\<close> and \<open>int(s * 0.60)\<close> is \<open>3 * s div 5\<close>;
  the definitions below use these integer forms.
\<close>

definition opaque :: rgba where
  "opaque = (0, 0, 0, 255)"

definition transparent :: rgba where
  "transparent = (255, 255, 255, 0)"

definition create_face_mask :: "nat \<Rightarrow> int option \<Rightarrow> int option \<Rightarrow> mask" where
  "create_face_mask target_size face_region_size_arg face_top_offset_arg =
     (let face_region_size =
            (case face_region_size_arg of None \<Rightarrow> int target_size div 2 | Some v \<Rightarrow> v);
          face_top_offset =
            (case face_top_offset_arg of None \<Rightarrow> int target_size div 5 | Some v \<Rightarrow> v);
          face_left = (int target_size - face_region_size) div 2;
          face_top = face_top_offset;
          face_right = face_left + face_region_size;
          face_bottom = face_top + face_region_size
      in \<lparr> mask_size = target_size, mask_background = opaque,
           mask_ellipses = [((face_left, face_top, face_right, face_bottom), transparent)] \<rparr>)"

definition create_safe_radius_mask :: "nat \<Rightarrow> int option \<Rightarrow> int option \<Rightarrow> mask" where
  "create_safe_radius_mask target_size face_region_size_arg face_top_offset_arg =
     (let face_region_size =
            (case face_region_size_arg of None \<Rightarrow> int target_size div 2 | Some v \<Rightarrow> v);
          face_top_offset =
            (case face_top_offset_arg of None \<Rightarrow> int target_size div 5 | Some v \<Rightarrow> v);
          face_left = (int target_size - face_region_size) div 2;
          face_top = face_top_offset;
          face_right = face_left + face_region_size;
          face_bottom = face_top + face_region_size;
          border_expansion = 3 * face_region_size div 5;
          border_left = face_left - border_expansion;
          border_top = face_top - border_expansion;
          border_right = face_right + border_expansion;
          border_bottom = face_bottom + border_expansion
      in \<lparr> mask_size = target_size, mask_background = opaque,
           mask_ellipses =
             [((border_left, border_top, border_right, border_bottom), transparent),
              ((face_left, face_top, face_right, face_bottom), opaque)] \<rparr>)"

definition create_full_head_mask :: "nat \<Rightarrow> int option \<Rightarrow> int option \<Rightarrow> mask" where
  "create_full_head_mask target_size head_region_size_arg head_top_offset_arg =
     (let head_region_size =
            (case head_region_size_arg of None \<Rightarrow> 13 * int target_size div 20 | Some v \<Rightarrow> v);
          head_top_offset =
            (case head_top_offset_arg of None \<Rightarrow> int target_size div 20 | Some v \<Rightarrow> v);
          head_left = (int target_size - head_region_size) div 2;
          head_top = head_top_offset;
          head_right = head_left + head_region_size;
          head_bottom = head_top + head_region_size
      in \<lparr> mask_size = target_size, mask_background = opaque,
           mask_ellipses = [((head_left, head_top, head_right, head_bottom), transparent)] \<rparr>)"

definition create_head_and_body_mask :: "nat \<Rightarrow> int option \<Rightarrow> int option \<Rightarrow> mask" where
  "create_head_and_body_mask target_size head_region_size_arg head_top_offset_arg =
     (let head_region_size =
            (case head_region_size_arg of None \<Rightarrow> 13 * int target_size div 20 | Some v \<Rightarrow> v);
          head_top_offset =
            (case head_top_offset_arg of None \<Rightarrow> int target_size div 20 | Some v \<Rightarrow> v);
          head_left = (int target_size - head_region_size) div 2;
          head_top = head_top_offset;
          head_right = head_left + head_region_size;
          head_bottom = head_top + head_region_size;
          body_width = 3 * int target_size div 4;
          body_left = (int target_size - body_width) div 2;
          body_top = head_bottom - head_region_size div 5;
          body_bottom = 3 * int target_size div 4;
          body_right = body_left + body_width
      in \<lparr> mask_size = target_size, mask_background = opaque,
           mask_ellipses =
             [((head_left, head_top, head_right, head_bottom), transparent),
              ((body_left, body_top, body_right, body_bottom), transparent)] \<rparr>)"

text \<open>
  The colour of a pixel of a mask: that of the last ellipse drawn over it, or the
  background. Which pixels \<open>ImageDraw.ellipse\<close> paints for a bounding box is PIL's
  business; it is the parameter \<open>covers\<close>.
\<close>

fun paint :: "(box \<Rightarrow> int \<times> int \<Rightarrow> bool) \<Rightarrow> rgba \<Rightarrow> (box \<times> rgba) list \<Rightarrow> int \<times> int \<Rightarrow> rgba" where
  "paint covers colour [] p = colour"
| "paint covers colour ((b, fill) # es) p =
     paint covers (if covers b p then fill else colour) es p"

definition pixel_at :: "(box \<Rightarrow> int \<times> int \<Rightarrow> bool) \<Rightarrow> mask \<Rightarrow> int \<times> int \<Rightarrow> rgba" where
  "pixel_at covers m p = paint covers (mask_background m) (mask_ellipses m) p"

text \<open>The alpha channel: 0 is transparent (editable), 255 is opaque (preserved).\<close>

definition alpha :: "rgba \<Rightarrow> nat" where
  "alpha c = (case c of (r, g, b, a) \<Rightarrow> a)"

text \<open>
  A stand-in rasteriser for concrete checks: a pixel is covered when it lies inside the
  mathematical ellipse inscribed in the bounding box, in exact integer arithmetic. It
  is not the algorithm of \<open>ImageDraw.ellipse\<close>, which may paint pixels next to the
  outline differently; it is used only at pixels far from the outline, where any
  rasteriser of the ellipse agrees.
\<close>

definition ideal_ellipse :: "box \<Rightarrow> int \<times> int \<Rightarrow> bool" where
  "ideal_ellipse b p =
     (case b of (x0, y0, x1, y1) \<Rightarrow> case p of (x, y) \<Rightarrow>
        (2 * x - (x0 + x1))\<^sup>2 * (y1 - y0)\<^sup>2 + (2 * y - (y0 + y1))\<^sup>2 * (x1 - x0)\<^sup>2
          \<le> (x1 - x0)\<^sup>2 * (y1 - y0)\<^sup>2)"

section \<open>Size Normalizer (image_processing.ensure_png_under_4mb)\<close>

text \<open>\<open>max_size_mb * 1024 * 1024\<close> for the default \<open>max_size_mb = 3.5\<close>.\<close>

definition max_size_bytes :: nat where
  "max_size_bytes = 3670016"

text \<open>\<open>img.resize((w, h), LANCZOS)\<close>: the same picture at another size.\<close>

definition resize :: "picture \<Rightarrow> nat \<Rightarrow> nat \<Rightarrow> picture" where
  "resize img w h = img \<lparr> pic_width := w, pic_height := h \<rparr>"

definition save_png :: "world \<Rightarrow> picture \<Rightarrow> png_file" where
  "save_png w img = \<lparr> file_picture = img, file_size = png_save_size w img \<rparr>"

text \<open>
  The file is rewritten in place when it is over the threshold; the result is the file
  as it is afterwards and the reported size.
\<close>

definition ensure_png_under_4mb :: "world \<Rightarrow> png_file \<Rightarrow> png_file \<times> nat" where
  "ensure_png_under_4mb w f =
     (let current_size = file_size f
      in if current_size \<le> max_size_bytes then (f, 1024)
         else (let img = file_picture f;
                   img_resized = resize img 512 512
               in (save_png w img_resized, 512)))"

section \<open>More string operations\<close>

text \<open>
  The ASCII part of Python's character classes: \<open>\s\<close> and \<open>str.strip\<close> take tab,
  line feed, vertical tab, form feed, carriage return, the separators 0x1C to 0x1F and
  space as whitespace; \<open>\w\<close> is a letter, a digit or the underscore.
\<close>

definition is_space :: "char \<Rightarrow> bool" where
  "is_space c =
     (c \<in> set [CHR 0x09, CHR 0x0A, CHR 0x0B, CHR 0x0C, CHR 0x0D,
                CHR 0x1C, CHR 0x1D, CHR 0x1E, CHR 0x1F, CHR '' ''])"

definition is_lower_letter :: "char \<Rightarrow> bool" where
  "is_lower_letter c = (c \<in> set ''abcdefghijklmnopqrstuvwxyz'')"

definition is_upper_letter :: "char \<Rightarrow> bool" where
  "is_upper_letter c = (c \<in> set ''ABCDEFGHIJKLMNOPQRSTUVWXYZ'')"

definition is_word :: "char \<Rightarrow> bool" where
  "is_word c = (is_lower_letter c \<or> is_upper_letter c \<or> c \<in> set ''0123456789_'')"

definition upper_char :: "char \<Rightarrow> char" where
  "upper_char c =
     (case map_of (zip ''abcdefghijklmnopqrstuvwxyz'' ''ABCDEFGHIJKLMNOPQRSTUVWXYZ'') c of
        None \<Rightarrow> c
      | Some u \<Rightarrow> u)"

definition strip :: "string \<Rightarrow> string" where
  "strip s = rev (dropWhile is_space (rev (dropWhile is_space s)))"

text \<open>
  \<open>str.title\<close>: a letter that follows a letter is lowered, any other letter is raised.
\<close>

fun title_from :: "bool \<Rightarrow> string \<Rightarrow> string" where
  "title_from previous_is_cased [] = []"
| "title_from previous_is_cased (c # cs) =
     (if is_lower_letter c \<or> is_upper_letter c
      then (if previous_is_cased then lower_char c else upper_char c) # title_from True cs
      else c # title_from False cs)"

definition title :: "string \<Rightarrow> string" where
  "title s = title_from False s"

text \<open>\<open>s.replace(old, new)\<close> for a single character \<open>old\<close>.\<close>

definition replace_char :: "char \<Rightarrow> char \<Rightarrow> string \<Rightarrow> string" where
  "replace_char old new s = map (\<lambda>c. if c = old then new else c) s"

text \<open>
  \<open>s.replace(old, '')\<close> for a non-empty \<open>old\<close>: occurrences are removed from left to
  right without overlap. The counter is the number of characters of the current
  occurrence still to be skipped.
\<close>

fun remove_from :: "string \<Rightarrow> nat \<Rightarrow> string \<Rightarrow> string" where
  "remove_from old skip [] = []"
| "remove_from old skip (c # cs) =
     (if 0 < skip then remove_from old (skip - 1) cs
      else if old \<noteq> [] \<and> prefix old (c # cs) then remove_from old (length old - 1) cs
      else c # remove_from old 0 cs)"

definition remove_all :: "string \<Rightarrow> string \<Rightarrow> string" where
  "remove_all old s = remove_from old 0 s"

text \<open>\<open>str(n)\<close> for a natural number.\<close>

function str_nat :: "nat \<Rightarrow> string" where
  "str_nat n =
     (if n < 10 then [''0123456789'' ! n]
      else str_nat (n div 10) @ [''0123456789'' ! (n mod 10)])"
  by pat_completeness auto
termination
  by (relation "measure (\<lambda>n. n)") auto

section \<open>Breed Classifier (image_processing.detect_dog_breed)\<close>

text \<open>
  \<open>DOG_BREEDS\<close> in insertion order: each key with its features and description.
\<close>

definition DOG_BREEDS :: "(string \<times> string list \<times> string) list" where
  "DOG_BREEDS =
     [(''golden_retriever'',
        [''friendly'', ''blonde'', ''long_hair'', ''medium_size'', ''kind_eyes''],
        ''friendly and gentle Golden Retriever''),
      (''labrador'',
        [''friendly'', ''short_hair'', ''medium_size'', ''athletic''],
        ''friendly and energetic Labrador''),
      (''german_shepherd'',
        [''serious'', ''pointed_ears'', ''medium_hair'', ''intelligent''],
        ''intelligent and loyal German Shepherd''),
      (''poodle'',
        [''curly_hair'', ''elegant'', ''small_medium'', ''refined''],
        ''elegant and refined Poodle''),
      (''bulldog'',
        [''strong'', ''short_hair'', ''sturdy'', ''wrinkled''],
        ''strong and sturdy Bulldog''),
      (''beagle'',
        [''friendly'', ''floppy_ears'', ''medium_size'', ''curious''],
        ''friendly and curious Beagle''),
      (''husky'',
        [''striking_eyes'', ''thick_coat'', ''medium_large'', ''wolf_like''],
        ''striking and wolf-like Siberian Husky''),
      (''dachshund'',
        [''long_body'', ''short_legs'', ''small_medium'', ''determined''],
        ''determined and distinctive Dachshund'')]"

definition breed_keys :: "string list" where
  "breed_keys = map fst DOG_BREEDS"

text \<open>\<open>breed_mapping\<close> in insertion order.\<close>

definition breed_mapping :: "(string \<times> string) list" where
  "breed_mapping =
     [(''golden retriever'', ''golden_retriever''),
      (''goldenretriever'', ''golden_retriever''),
      (''golden_retriever'', ''golden_retriever''),
      (''labrador'', ''labrador''),
      (''labrador retriever'', ''labrador''),
      (''labradorretriever'', ''labrador''),
      (''german shepherd'', ''german_shepherd''),
      (''germanshepherd'', ''german_shepherd''),
      (''german_shepherd'', ''german_shepherd''),
      (''alsatian'', ''german_shepherd''),
      (''poodle'', ''poodle''),
      (''bulldog'', ''bulldog''),
      (''english bulldog'', ''bulldog''),
      (''englishbulldog'', ''bulldog''),
      (''beagle'', ''beagle''),
      (''husky'', ''husky''),
      (''siberian husky'', ''husky''),
      (''siberianhusky'', ''husky''),
      (''dachshund'', ''dachshund''),
      (''wiener dog'', ''dachshund''),
      (''wienerdog'', ''dachshund''),
      (''sausage dog'', ''dachshund''),
      (''sausagedog'', ''dachshund'')]"

text \<open>
  The regular expression of the JSON step is
  \<^verbatim>\<open>\{[^}]*"breed"\s*:\s*"([^"]+)"[^}]*\}\<close>.
  \<open>breed_field_value\<close> matches what follows the quoted word \<open>breed\<close>: optional
  whitespace, a colon, optional whitespace, a quote, a non-empty run of characters
  other than the quote (the group), a quote, and then a closing brace somewhere later.
  Each of these pieces can match in one way only.
\<close>

definition dquote :: char where
  "dquote = CHR 0x22"

definition breed_field_value :: "string \<Rightarrow> string option" where
  "breed_field_value s =
     (case dropWhile is_space s of
        [] \<Rightarrow> None
      | c # after_colon \<Rightarrow>
          if c \<noteq> CHR '':'' then None
          else (case dropWhile is_space after_colon of
                  [] \<Rightarrow> None
                | q # after_quote \<Rightarrow>
                    if q \<noteq> dquote then None
                    else (let captured = takeWhile (\<lambda>x. x \<noteq> dquote) after_quote;
                              rest = dropWhile (\<lambda>x. x \<noteq> dquote) after_quote
                          in if captured = [] then None
                             else (case rest of
                                     [] \<Rightarrow> None
                                   | _ # tail \<Rightarrow>
                                       if CHR ''}'' \<in> set tail then Some captured else None))))"

text \<open>
  After the opening brace the greedy \<open>[^}]*\<close> gives up characters one at a time, so of
  all the places before the first closing brace where the quoted word \<open>breed\<close> starts
  and the rest matches, the last one is taken. \<open>best\<close> is the group of the last such
  place seen so far.
\<close>

fun last_breed_field :: "string \<Rightarrow> string option \<Rightarrow> string option" where
  "last_breed_field [] best = best"
| "last_breed_field (c # cs) best =
     (if c = CHR ''}'' then best
      else last_breed_field cs
             (if prefix (dquote # ''breed'' @ [dquote]) (c # cs)
              then (case breed_field_value (drop 7 (c # cs)) of
                      None \<Rightarrow> best
                    | Some captured \<Rightarrow> Some captured)
              else best))"

text \<open>\<open>re.search\<close>: the leftmost opening brace from which the expression matches.\<close>

fun json_search :: "string \<Rightarrow> string option" where
  "json_search [] = None"
| "json_search (c # cs) =
     (if c = CHR ''{''
      then (case last_breed_field cs None of
              None \<Rightarrow> json_search cs
            | Some captured \<Rightarrow> Some captured)
      else json_search cs)"

text \<open>
  \<open>re.search(r'\b' + re.escape(pat) + r'\b', text)\<close> for a non-empty \<open>pat\<close> of
  letters, underscores and spaces: \<open>pat\<close> occurs with a word boundary on both sides.
  \<open>previous_is_word\<close> tells whether the character before the current position is a
  word character (at the start of the text there is none).
\<close>

definition next_is_word :: "string \<Rightarrow> bool" where
  "next_is_word s = (case s of [] \<Rightarrow> False | c # _ \<Rightarrow> is_word c)"

fun word_search_from :: "bool \<Rightarrow> string \<Rightarrow> string \<Rightarrow> bool" where
  "word_search_from previous_is_word pat [] = False"
| "word_search_from previous_is_word pat (c # cs) =
     ((pat \<noteq> [] \<and> prefix pat (c # cs)
         \<and> previous_is_word \<noteq> is_word (hd pat)
         \<and> is_word (last pat) \<noteq> next_is_word (drop (length pat) (c # cs)))
      \<or> word_search_from (is_word c) pat cs)"

definition word_search :: "string \<Rightarrow> string \<Rightarrow> bool" where
  "word_search pat text = word_search_from False pat text"

text \<open>The JSON step: the group, stripped and lowered, as a key or through the mapping.\<close>

definition json_step :: "string \<Rightarrow> string option" where
  "json_step breed_response =
     (case json_search breed_response of
        None \<Rightarrow> None
      | Some captured \<Rightarrow>
          (let json_breed = lower (strip captured)
           in if json_breed \<in> set breed_keys then Some json_breed
              else map_of breed_mapping json_breed))"

text \<open>The loop over the keys: the key itself, or the key with spaces for underscores.\<close>

definition direct_key_step :: "string \<Rightarrow> string option" where
  "direct_key_step breed_response =
     find (\<lambda>key. word_search key breed_response
                  \<or> word_search (replace_char CHR ''_'' CHR '' '' key) breed_response)
          breed_keys"

definition mapping_step :: "string \<Rightarrow> string option" where
  "mapping_step breed_response =
     map_option snd (find (\<lambda>(variant, key). word_search variant breed_response) breed_mapping)"

definition is_refusal :: "string \<Rightarrow> bool" where
  "is_refusal breed_response =
     (contains ''sorry'' (lower breed_response) \<or> contains ''can't help'' (lower breed_response))"

text \<open>\<open>random.choice(list(DOG_BREEDS.keys()))\<close>.\<close>

definition random_choice :: "world \<Rightarrow> string list \<Rightarrow> string" where
  "random_choice w xs = xs ! (random_index w mod length xs)"

text \<open>A text whose characters are all ASCII (the top bit of every byte is clear).\<close>

definition ascii_text :: "string \<Rightarrow> bool" where
  "ascii_text s = list_all (\<lambda>c. \<not> digit7 c) s"

text \<open>
  From the raw response text to the selected key: the first step that finds one wins.

  The string operations above (\<open>lower\<close>, \<open>strip\<close>, \<open>\s\<close>, \<open>\w\<close> and \<open>\b\<close>)
  are those of Python on ASCII text only. On a text with a character outside ASCII
  Python uses its Unicode tables, which are not modelled, so there the steps are not
  computed: the selected key is left to the world. In the source every path of the
  parsing ends with one of the keys, and that much is kept.
\<close>

definition select_breed :: "world \<Rightarrow> string \<Rightarrow> string" where
  "select_breed w raw_response =
     (if \<not> ascii_text raw_response
      then breed_keys ! (non_ascii_choice w raw_response mod length breed_keys)
      else (let breed_response = lower raw_response
            in case json_step breed_response of
                 Some b \<Rightarrow> b
               | None \<Rightarrow>
                   (case direct_key_step breed_response of
                      Some b \<Rightarrow> b
                    | None \<Rightarrow>
                        (case mapping_step breed_response of
                           Some b \<Rightarrow> b
                         | None \<Rightarrow>
                             if is_refusal breed_response then random_choice w breed_keys
                             else ''golden_retriever''))))"

text \<open>\<open>img.convert('RGB')\<close> when the mode is not RGB.\<close>

definition convert_rgb :: "picture \<Rightarrow> picture" where
  "convert_rgb img = (if pic_mode img \<noteq> ''RGB'' then img \<lparr> pic_mode := ''RGB'' \<rparr> else img)"

text \<open>
  The body of the outer \<open>try\<close>: the credential check, the preparation of the picture,
  the call of the first model and, when that raises, of the second, the reading of
  \<open>response.choices[0].message.content.strip()\<close>, the selection of the key and the
  lookup of its description.
\<close>

definition detect_dog_breed_body :: "world \<Rightarrow> bytes \<Rightarrow> string + (string \<times> string)" where
  "detect_dog_breed_body w image_path =
     (if \<not> truthy (get_api_key w) then Inl api_key_error
      else (case pil_open w image_path of
              Inl e \<Rightarrow> Inl e
            | Inr opened \<Rightarrow>
                (let img = convert_rgb opened;
                     img = (if 2048 < max (pic_width img) (pic_height img)
                            then pil_thumbnail w img 2048 else img);
                     response =
                       (case chat_create w ''gpt-4o-mini'' img of
                          Inl mini_error \<Rightarrow> chat_create w ''gpt-4o'' img
                        | Inr r \<Rightarrow> Inr r)
                 in case response of
                      Inl e \<Rightarrow> Inl e
                    | Inr [] \<Rightarrow> Inl ''list index out of range''
                    | Inr (None # _) \<Rightarrow>
                        Inl (CHR 0x27 # ''NoneType'' @ CHR 0x27
                               # '' object has no attribute '' @ CHR 0x27 # ''strip'' @ [CHR 0x27])
                    | Inr (Some content # _) \<Rightarrow>
                        (let raw_response = strip content;
                             selected_breed = select_breed w raw_response
                         in case map_of DOG_BREEDS selected_breed of
                              None \<Rightarrow> Inl (CHR 0x27 # selected_breed @ [CHR 0x27])
                            | Some (features, description) \<Rightarrow>
                                Inr (selected_breed, description)))))"

text \<open>The outer \<open>except Exception\<close>: any error becomes the fixed default.\<close>

definition golden_retriever_default :: "string \<times> string" where
  "golden_retriever_default = (''golden_retriever'', ''friendly and gentle Golden Retriever'')"

definition detect_dog_breed :: "world \<Rightarrow> bytes \<Rightarrow> string \<times> string" where
  "detect_dog_breed w image_path =
     (case detect_dog_breed_body w image_path of
        Inl e \<Rightarrow> golden_retriever_default
      | Inr result \<Rightarrow> result)"

section \<open>Stage Executor (image_processing.py)\<close>

text \<open>
  The preparation every stage function repeats: an RGBA picture is pasted on a white
  background, any other mode is converted, a picture that is not square is resized to
  the square of its larger side, and the result is resized to the target size.
\<close>

definition flatten_to_rgb :: "picture \<Rightarrow> picture" where
  "flatten_to_rgb img =
     (if pic_mode img = ''RGBA'' then img \<lparr> pic_mode := ''RGB'' \<rparr>
      else if pic_mode img \<noteq> ''RGB'' then img \<lparr> pic_mode := ''RGB'' \<rparr>
      else img)"

definition square_and_resize :: "picture \<Rightarrow> nat \<Rightarrow> picture" where
  "square_and_resize img target_size =
     (let width = pic_width img;
          height = pic_height img;
          img = (if width \<noteq> height
                 then (let size_dim = max width height in resize img size_dim size_dim)
                 else img)
      in if pic_width img \<noteq> target_size then resize img target_size target_size else img)"

text \<open>
  The picture is saved as an optimised PNG and passed through the size normalizer; the
  result is the file to send, the size reported and the target size the masks are made
  for (the reported size, when it differs from the target).
\<close>

definition save_and_normalize :: "world \<Rightarrow> picture \<Rightarrow> nat \<Rightarrow> png_file \<times> nat \<times> nat" where
  "save_and_normalize w img target_size =
     (case ensure_png_under_4mb w (save_png w img) of
        (f, actual_size) \<Rightarrow>
          (f, actual_size, if actual_size \<noteq> target_size then actual_size else target_size))"

definition api_size_of :: "nat \<Rightarrow> string" where
  "api_size_of actual_size = str_nat actual_size @ ''x'' @ str_nat actual_size"

text \<open>The mask drawn inline for \<open>mask_type == "inverted"\<close>.\<close>

definition inverted_mask :: "nat \<Rightarrow> mask" where
  "inverted_mask target_size =
     (let face_region_size = int target_size div 2;
          face_left = (int target_size - face_region_size) div 2;
          face_top = int target_size div 5;
          face_right = face_left + face_region_size;
          face_bottom = face_top + face_region_size
      in \<lparr> mask_size = target_size, mask_background = transparent,
           mask_ellipses = [((face_left, face_top, face_right, face_bottom), opaque)] \<rparr>)"

text \<open>
  The handler of the inner \<open>try\<close> of \<open>edit_image_with_dalle\<close>: a message that
  mentions "edit" or "not found" is replaced, any other error is raised again.
\<close>

definition dalle_reraise :: "string + bytes \<Rightarrow> string + bytes" where
  "dalle_reraise r =
     (case r of
        Inr v \<Rightarrow> Inr v
      | Inl error_msg \<Rightarrow>
          if contains ''edit'' (lower error_msg) \<or> contains ''not found'' (lower error_msg)
          then Inl (''Image editing API may not be available. ''
                    @ ''DALL-E 3 doesn't support image editing. ''
                    @ ''Original error: '' @ error_msg)
          else Inl error_msg)"

definition edit_image_with_dalle ::
  "world \<Rightarrow> bytes \<Rightarrow> string \<Rightarrow> nat \<Rightarrow> string \<Rightarrow> mask option \<Rightarrow> string + bytes" where
  "edit_image_with_dalle w original_image_path edit_prompt size_arg mask_type face_mask_arg =
     (if \<not> truthy (get_api_key w) then Inl api_key_error
      else (case pil_open w original_image_path of
              Inl e \<Rightarrow> Inl e
            | Inr opened \<Rightarrow>
                (let img = square_and_resize (flatten_to_rgb opened) size_arg
                 in dalle_reraise
                      (case save_and_normalize w img size_arg of
                         (f, actual_size, target_size) \<Rightarrow>
                           (let face_mask =
                                  (case face_mask_arg of
                                     None \<Rightarrow> create_face_mask target_size None None
                                   | Some m \<Rightarrow> m);
                                mask =
                                  (if mask_type = ''safe_radius''
                                   then create_safe_radius_mask target_size None None
                                   else if mask_type = ''inverted''
                                   then inverted_mask target_size
                                   else face_mask)
                            in case images_edit w
                                      \<lparr> req_model = None, req_image = f, req_mask = mask,
                                        req_prompt = edit_prompt,
                                        req_size = api_size_of actual_size \<rparr> of
                                 Inl e \<Rightarrow> Inl e
                               | Inr response \<Rightarrow>
                                   (case resp_data response of
                                      None \<Rightarrow>
                                        Inl (CHR 0x27 # ''NoneType'' @ CHR 0x27
                                               # '' object is not subscriptable'')
                                    | Some [] \<Rightarrow> Inl ''list index out of range''
                                    | Some (item # _) \<Rightarrow> http_get w (item_url item)))))))"

text \<open>
  How the three \<open>gpt-image-1\<close> functions read the response: an empty or missing
  \<open>data\<close> is an error, a URL is downloaded, an inline payload is decoded, and an item
  with neither is an error.
\<close>

definition read_edit_response :: "world \<Rightarrow> edit_response \<Rightarrow> string + bytes" where
  "read_edit_response w response =
     (case resp_data response of
        None \<Rightarrow>
          Inl (''API response missing or empty 'data' attribute. Response: ''
               @ resp_repr response)
      | Some [] \<Rightarrow>
          Inl (''API response missing or empty 'data' attribute. Response: ''
               @ resp_repr response)
      | Some (item # _) \<Rightarrow>
          if truthy (item_url item) then http_get w (item_url item)
          else if truthy (item_b64_json item) then b64decode w (the (item_b64_json item))
          else Inl (''API response data[0] has neither 'url' nor 'b64_json'. Data item: ''
                    @ item_repr item @ '', Attributes: '' @ item_dir item))"

definition edit_image_with_gpt_image1 ::
  "world \<Rightarrow> bytes \<Rightarrow> string \<Rightarrow> nat \<Rightarrow> string \<Rightarrow> mask option \<Rightarrow> string + bytes" where
  "edit_image_with_gpt_image1 w original_image_path edit_prompt size_arg mask_type face_mask_arg =
     (if \<not> truthy (get_api_key w) then Inl api_key_error
      else (case pil_open w original_image_path of
              Inl e \<Rightarrow> Inl e
            | Inr opened \<Rightarrow>
                (let img = square_and_resize (flatten_to_rgb opened) size_arg
                 in case save_and_normalize w img size_arg of
                      (f, actual_size, target_size) \<Rightarrow>
                        (let face_mask =
                               (case face_mask_arg of
                                  None \<Rightarrow> create_face_mask target_size None None
                                | Some m \<Rightarrow> m);
                             mask =
                               (if mask_type = ''safe_radius''
                                then create_safe_radius_mask target_size None None
                                else face_mask)
                         in case images_edit w
                                   \<lparr> req_model = Some ''gpt-image-1'', req_image = f,
                                     req_mask = mask, req_prompt = edit_prompt,
                                     req_size = api_size_of actual_size \<rparr> of
                              Inl e \<Rightarrow> Inl e
                            | Inr response \<Rightarrow> read_edit_response w response))))"

text \<open>
  The prompts of stage 3. Both functions also build a \<open>breed_desc\<close> from
  \<open>breed_features\<close> that no prompt uses; it is left out.
\<close>

definition enhance_only_prompt :: "string \<Rightarrow> string" where
  "enhance_only_prompt breed_name_display =
     ''Enhance the existing anthropomorphic human-dog hybrid transformation. ''
     @ ''Improve the fur texture, details, and quality of the '' @ breed_name_display
     @ '' dog features (ears and snout) on the head while keeping the exact same structure, ''
     @ ''composition, and background. Enhance the realism and quality of the dog fur and ''
     @ ''textures on the head without changing the overall appearance or layout. ''
     @ ''Keep the background exactly the same.''"

definition enhance_body_prompt :: "string \<Rightarrow> string" where
  "enhance_body_prompt breed_name_display =
     ''Enhance the existing anthropomorphic human-dog hybrid transformation. ''
     @ ''Improve the fur texture, details, and quality of the '' @ breed_name_display
     @ '' dog features (ears and snout) on the head. Additionally, add fluffy, fuzzy, furry ''
     @ breed_name_display
     @ '' dog fur to the body, torso, and shoulders - make the body area covered in soft, ''
     @ ''shaggy dog fur while preserving the clothing underneath. Enhance the realism and ''
     @ ''quality of the dog fur and textures on both the head and body. Keep the exact same ''
     @ ''structure, composition, and background. Keep the background exactly the same.''"

definition finalize_with_gpt_image1_enhance_only ::
  "world \<Rightarrow> bytes \<Rightarrow> string \<Rightarrow> string list \<Rightarrow> string + bytes" where
  "finalize_with_gpt_image1_enhance_only w stage2_image_path breed_name_display breed_features =
     (if \<not> truthy (get_api_key w) then Inl api_key_error
      else (case pil_open w stage2_image_path of
              Inl e \<Rightarrow> Inl e
            | Inr opened \<Rightarrow>
                (let img = square_and_resize (flatten_to_rgb opened) 1024
                 in case save_and_normalize w img 1024 of
                      (f, actual_size, target_size) \<Rightarrow>
                        (case images_edit w
                                \<lparr> req_model = Some ''gpt-image-1'', req_image = f,
                                  req_mask = create_full_head_mask target_size None None,
                                  req_prompt = enhance_only_prompt breed_name_display,
                                  req_size = api_size_of actual_size \<rparr> of
                           Inl e \<Rightarrow> Inl e
                         | Inr response \<Rightarrow> read_edit_response w response))))"

definition finalize_with_gpt_image1 ::
  "world \<Rightarrow> bytes \<Rightarrow> string \<Rightarrow> string list \<Rightarrow> string + bytes" where
  "finalize_with_gpt_image1 w stage2_image_path breed_name_display breed_features =
     (if \<not> truthy (get_api_key w) then Inl api_key_error
      else (case pil_open w stage2_image_path of
              Inl e \<Rightarrow> Inl e
            | Inr opened \<Rightarrow>
                (let img = square_and_resize (flatten_to_rgb opened) 1024
                 in case save_and_normalize w img 1024 of
                      (f, actual_size, target_size) \<Rightarrow>
                        (case images_edit w
                                \<lparr> req_model = Some ''gpt-image-1'', req_image = f,
                                  req_mask = create_head_and_body_mask target_size None None,
                                  req_prompt = enhance_body_prompt breed_name_display,
                                  req_size = api_size_of actual_size \<rparr> of
                           Inl e \<Rightarrow> Inl e
                         | Inr response \<Rightarrow> read_edit_response w response))))"

section \<open>Pipeline Orchestrator (image_processing.generate_transformation_images)\<close>

definition ears_prompt :: "string \<Rightarrow> string \<Rightarrow> string" where
  "ears_prompt ear_type breed_name_display =
     ''Add two large, authentic '' @ ear_type @ breed_name_display
     @ '' dog ears with dog ear texture and fur, one on each side of the top of the head. ''
     @ ''The ears should be clearly visible and prominent, positioned symmetrically on ''
     @ ''opposite sides at the top of the head, outside the face area. The ears must have ''
     @ ''dog ear texture - fur-covered, canine appearance, not human ear texture. Make the ''
     @ ''ears realistic and breed-appropriate with proper dog ear material and texture. ''
     @ ''CRITICAL: DO NOT change or edit the face itself - the face must remain COMPLETELY ''
     @ ''UNCHANGED. Keep all facial features exactly as they are - do not modify the eyes, ''
     @ ''nose, mouth, skin, or any part of the face. The face should look identical to the ''
     @ ''original. Do not change the background - keep the background exactly as it is. ''
     @ ''Do not add any other dogs, dog faces, or dog heads into the image. Only add the two ''
     @ ''dog ears at the top sides of the head. Transform the person by adding dog ears, ''
     @ ''do not add a separate dog next to the person.''"

definition snout_prompt :: "string \<Rightarrow> string" where
  "snout_prompt breed_name_display =
     ''Add a '' @ breed_name_display
     @ '' dog snout/nose to the face area. Only modify the nose/snout region within the ''
     @ ''face. Do not change the background - keep the background exactly as it is. Keep ''
     @ ''the eyes, facial structure, and all features outside the face exactly as they are. ''
     @ ''Keep ALL previous edits: the dog ears from the previous stage must remain visible ''
     @ ''and unchanged.''"

text \<open>The dictionary the function returns: the three images by key.\<close>

record generated_images =
  image_1 :: bytes
  image_2 :: bytes
  final :: bytes

text \<open>
  The features of the breed, when \<open>breed_name\<close> is given and is a key. The function
  also collects \<open>visual_traits\<close> into \<open>breed_traits\<close>, which nothing reads; that
  part is left out.
\<close>

definition breed_features_of :: "string option \<Rightarrow> string list" where
  "breed_features_of breed_name =
     (if truthy breed_name
      then (case map_of DOG_BREEDS (the breed_name) of
              None \<Rightarrow> []
            | Some (features, description) \<Rightarrow> features)
      else [])"

definition breed_name_display_of :: "string \<Rightarrow> string option \<Rightarrow> string" where
  "breed_name_display_of breed_description breed_name =
     (if \<not> truthy breed_name then strip (remove_all ''dog'' breed_description)
      else title (replace_char CHR ''_'' CHR '' '' (the breed_name)))"

definition ear_type_of :: "string list \<Rightarrow> string" where
  "ear_type_of breed_features =
     (let ear_description =
            (if breed_features \<noteq> []
             then (if ''pointed_ears'' \<in> set breed_features then ''pointed''
                   else if ''floppy_ears'' \<in> set breed_features then ''floppy''
                   else [])
             else [])
      in if ear_description \<noteq> [] then ear_description @ '' '' else [])"

text \<open>
  The three stages in order. Each stage chooses its function by comparing
  \<open>pipeline_type\<close> with \<open>"dalle_gpt"\<close>; an error of a stage is raised again as a
  \<open>ValueError\<close> whose message names the stage. The original is opened once before
  stage 1, outside the stage handlers.
\<close>

definition stage_1 ::
  "world \<Rightarrow> string \<Rightarrow> bytes \<Rightarrow> string \<Rightarrow> mask \<Rightarrow> string + bytes" where
  "stage_1 w pipeline_type_arg original_image_path prompt_1 face_mask =
     (if pipeline_type_arg = ''dalle_gpt''
      then edit_image_with_dalle w original_image_path prompt_1 1024 ''safe_radius''
             (Some face_mask)
      else edit_image_with_gpt_image1 w original_image_path prompt_1 1024 ''safe_radius''
             (Some face_mask))"

definition stage_2 ::
  "world \<Rightarrow> string \<Rightarrow> bytes \<Rightarrow> string \<Rightarrow> mask \<Rightarrow> string + bytes" where
  "stage_2 w pipeline_type_arg temp_img_1_path prompt_2 face_mask =
     (if pipeline_type_arg = ''dalle_gpt''
      then edit_image_with_dalle w temp_img_1_path prompt_2 1024 ''face'' (Some face_mask)
      else edit_image_with_gpt_image1 w temp_img_1_path prompt_2 1024 ''face''
             (Some face_mask))"

definition stage_3 ::
  "world \<Rightarrow> string \<Rightarrow> bytes \<Rightarrow> string \<Rightarrow> string list \<Rightarrow> string + bytes" where
  "stage_3 w pipeline_type_arg temp_img_2_path breed_name_display breed_features =
     (if pipeline_type_arg = ''dalle_gpt''
      then finalize_with_gpt_image1_enhance_only w temp_img_2_path breed_name_display
             breed_features
      else finalize_with_gpt_image1 w temp_img_2_path breed_name_display breed_features)"

definition generate_transformation_images ::
  "world \<Rightarrow> bytes \<Rightarrow> string \<Rightarrow> string option \<Rightarrow> string \<Rightarrow> string + generated_images" where
  "generate_transformation_images w original_image_path breed_description breed_name
       pipeline_type_arg =
     (let breed_features = breed_features_of breed_name;
          breed_name_display = breed_name_display_of breed_description breed_name
      in case pil_open w original_image_path of
           Inl e \<Rightarrow> Inl e
         | Inr original_img \<Rightarrow>
             (let face_mask = create_face_mask 1024 None None;
                  prompt_1 = ears_prompt (ear_type_of breed_features) breed_name_display;
                  prompt_2 = snout_prompt breed_name_display
              in case stage_1 w pipeline_type_arg original_image_path prompt_1 face_mask of
                   Inl error_msg \<Rightarrow> Inl (''Stage 1 Error (adding ears): '' @ error_msg)
                 | Inr img_1_data \<Rightarrow>
                     (case stage_2 w pipeline_type_arg img_1_data prompt_2 face_mask of
                        Inl error_msg \<Rightarrow> Inl (''Stage 2 Error (adding snout): '' @ error_msg)
                      | Inr img_2_data \<Rightarrow>
                          (case stage_3 w pipeline_type_arg img_2_data breed_name_display
                                  breed_features of
                             Inl error_msg \<Rightarrow>
                               Inl (''Stage 3 Error (finalizing with gpt-image-1): ''
                                    @ error_msg)
                           | Inr img_final_data \<Rightarrow>
                               Inr \<lparr> image_1 = img_1_data, image_2 = img_2_data,
                                     final = img_final_data \<rparr>))))"

section \<open>Job Runner (app.process_image_generation)\<close>

text \<open>
  The versions of the job's row that the function commits, oldest first. The images
  are written to the row only after \<open>generate_transformation_images\<close> has returned
  all three; when it raises, the handler loads the row again, sets the status to
  \<open>error\<close> and stores the message.
\<close>

definition job_commits :: "world \<Rightarrow> generated_image \<Rightarrow> string \<Rightarrow> generated_image list" where
  "job_commits w image_record pipeline_type_arg =
     (let r1 = image_record \<lparr> status := ''detecting'' \<rparr>
      in case detect_dog_breed w (original_image_data image_record) of
           (breed, breed_description) \<Rightarrow>
             (let r2 = r1 \<lparr> breed_detected := Some breed, status := ''generating_1'' \<rparr>
              in case generate_transformation_images w (original_image_data image_record)
                        breed_description (Some breed) pipeline_type_arg of
                   Inl error_msg \<Rightarrow>
                     [r1, r2,
                      r2 \<lparr> status := ''error'',
                           error_message := Some (''Error: '' @ error_msg) \<rparr>]
                 | Inr generated \<Rightarrow>
                     (let r3 = r2 \<lparr> image_1_data := Some (image_1 generated),
                                     status := ''generating_2'' \<rparr>;
                          r4 = r3 \<lparr> image_2_data := Some (image_2 generated),
                                     status := ''generating_final'' \<rparr>;
                          r5 = r4 \<lparr> final_dog_image_data := Some (final generated),
                                     status := ''completed'' \<rparr>
                      in [r1, r2, r3, r4, r5])))"

text \<open>
  The committed tables the run leaves one after another, and the table at the end. A
  run for an id that has no row returns at once and commits nothing.
\<close>

definition process_image_generation_trace :: "world \<Rightarrow> db \<Rightarrow> nat \<Rightarrow> string \<Rightarrow> db list" where
  "process_image_generation_trace w d image_id pipeline_type_arg =
     (case d image_id of
        None \<Rightarrow> []
      | Some image_record \<Rightarrow>
          map (\<lambda>r. d(image_id \<mapsto> r)) (job_commits w image_record pipeline_type_arg))"

definition process_image_generation :: "world \<Rightarrow> db \<Rightarrow> nat \<Rightarrow> string \<Rightarrow> db" where
  "process_image_generation w d image_id pipeline_type_arg =
     (case process_image_generation_trace w d image_id pipeline_type_arg of
        [] \<Rightarrow> d
      | c # cs \<Rightarrow> last (c # cs))"

section \<open>Upload (config.py, image_processing.allowed_file, app.upload)\<close>

definition ALLOWED_EXTENSIONS :: "string set" where
  "ALLOWED_EXTENSIONS = {''png'', ''jpg'', ''jpeg'', ''gif'', ''webp''}"

text \<open>\<open>filename.rsplit('.', 1)[1]\<close>, for a filename that has a dot: what follows the last dot.\<close>

definition rsplit_ext :: "string \<Rightarrow> string" where
  "rsplit_ext filename = rev (takeWhile (\<lambda>c. c \<noteq> CHR ''.'') (rev filename))"

definition allowed_file :: "string \<Rightarrow> bool" where
  "allowed_file filename =
     (CHR ''.'' \<in> set filename \<and> lower (rsplit_ext filename) \<in> ALLOWED_EXTENSIONS)"

text \<open>
  The table with its key counter: a committed insert takes the next free primary key.
  \<open>table_ok\<close> says that the counter is above every key in use.
\<close>

record table =
  rows :: db
  next_id :: nat

definition table_ok :: "table \<Rightarrow> bool" where
  "table_ok t = (\<forall>k. k \<in> dom (rows t) \<longrightarrow> k < next_id t)"

text \<open>
  \<open>db.session.add\<close> collects rows; \<open>db.session.commit\<close> writes all the rows added
  since the last commit in one transaction, in the order they were added.
\<close>

fun session_commit :: "table \<Rightarrow> generated_image list \<Rightarrow> table" where
  "session_commit t [] = t"
| "session_commit t (r # rs) =
     session_commit \<lparr> rows = (rows t)(next_id t \<mapsto> r), next_id = Suc (next_id t) \<rparr> rs"

text \<open>
  What the view reads from the request: the method, the uploaded file under the form
  key \<open>file\<close> (its filename and content) if there is one, the form field
  \<open>pipeline_type\<close> if there is one, the logged-in user (\<open>None\<close> for an anonymous
  request) and the clock reading formatted by \<open>strftime('%Y%m%d_%H%M%S')\<close>.

  For an anonymous request \<open>login_required\<close> flashes the configured
  \<open>login_message\<close> (under flask-login's default category \<open>message\<close>) and
  redirects to the login page. The limit \<open>MAX_CONTENT_LENGTH\<close> of 16MB is applied by
  Flask while it parses the request, before the code of the view sees the file; a
  request here is one that Flask has parsed, so the view has no branch for it.
\<close>

record upload_request =
  req_method :: string
  req_file :: "(string \<times> bytes) option"
  req_pipeline_type :: "string option"
  req_user :: "nat option"
  req_timestamp :: string

datatype upload_response =
    UploadRedirectLogin
  | RedirectSelf
  | RedirectToDashboard
  | RenderUploadForm

text \<open>
  What the view leaves behind: the response, the flashed messages, the committed table
  after each commit it made (oldest first), the table at the end, and the background
  threads it started, each with the arguments of \<open>process_image_generation\<close>.
\<close>

record upload_result =
  up_response :: upload_response
  up_flashes :: "(string \<times> string) list"
  up_commits :: "table list"
  up_table :: table
  up_threads :: "(nat \<times> string) list"

definition new_generated_image ::
  "nat \<Rightarrow> bytes \<Rightarrow> string option \<Rightarrow> string option \<Rightarrow> generated_image" where
  "new_generated_image uid file_data batch pipeline =
     \<lparr> user_id = uid, original_image_data = file_data, breed_detected = None,
       status = ''uploaded'', error_message = None, image_1_data = None,
       image_2_data = None, final_dog_image_data = None, batch_id = batch,
       pipeline_type = pipeline \<rparr>"

definition upload :: "table \<Rightarrow> upload_request \<Rightarrow> upload_result" where
  "upload t req =
     (case req_user req of
        None \<Rightarrow>
          \<lparr> up_response = UploadRedirectLogin,
            up_flashes = [(''Please log in to access this page.'', ''message'')],
            up_commits = [], up_table = t, up_threads = [] \<rparr>
      | Some uid \<Rightarrow>
          if req_method req \<noteq> ''POST'' then
            \<lparr> up_response = RenderUploadForm, up_flashes = [], up_commits = [],
              up_table = t, up_threads = [] \<rparr>
          else
            (case req_file req of
               None \<Rightarrow>
                 \<lparr> up_response = RedirectSelf, up_flashes = [(''No file selected'', ''error'')],
                   up_commits = [], up_table = t, up_threads = [] \<rparr>
             | Some (filename, file_data) \<Rightarrow>
                 if filename = [] then
                   \<lparr> up_response = RedirectSelf,
                     up_flashes = [(''No file selected'', ''error'')],
                     up_commits = [], up_table = t, up_threads = [] \<rparr>
                 else if allowed_file filename then
                   (let pipeline_type =
                          (case req_pipeline_type req of None \<Rightarrow> ''gpt_only'' | Some p \<Rightarrow> p)
                    in if pipeline_type = ''both'' then
                         (let batch = str_nat uid @ ''_'' @ req_timestamp req;
                              new_image_1 =
                                new_generated_image uid file_data (Some batch) (Some ''dalle_gpt'');
                              new_image_2 =
                                new_generated_image uid file_data (Some batch) (Some ''gpt_only'');
                              t' = session_commit t [new_image_1, new_image_2]
                          in \<lparr> up_response = RedirectToDashboard,
                               up_flashes =
                                 [(''Image uploaded! Both pipelines running simultaneously.'',
                                   ''success'')],
                               up_commits = [t'], up_table = t',
                               up_threads =
                                 [(next_id t, ''dalle_gpt''), (Suc (next_id t), ''gpt_only'')] \<rparr>)
                       else
                         (let new_image =
                                new_generated_image uid file_data None (Some pipeline_type);
                              t' = session_commit t [new_image]
                          in \<lparr> up_response = RedirectToDashboard,
                               up_flashes =
                                 [(''Image uploaded! Generation in progress.'', ''success'')],
                               up_commits = [t'], up_table = t',
                               up_threads = [(next_id t, pipeline_type)] \<rparr>))
                 else
                   \<lparr> up_response = RenderUploadForm,
                     up_flashes =
                       [(''Invalid file type. Please upload an image (png, jpg, jpeg, gif, webp)'',
                         ''error'')],
                     up_commits = [], up_table = t, up_threads = [] \<rparr>))"

section \<open>Concrete inputs\<close>

text \<open>
  A world for concrete checks: a credential is configured, every file opens as a
  1024 by 1024 RGB picture, a saved PNG takes four bytes per pixel and a header, and no
  remote call is answered.
\<close>

definition offline_world :: world where
  "offline_world =
     \<lparr> config_api_key = Some ''sk-test'', environ_api_key = None,
       pil_open = (\<lambda>content. Inr \<lparr> pic_mode = ''RGB'', pic_width = 1024,
                                     pic_height = 1024, pic_source = content \<rparr>),
       png_save_size = (\<lambda>img. 4 * pic_width img * pic_height img + 1000),
       pil_thumbnail = (\<lambda>img n. img \<lparr> pic_width := n, pic_height := n \<rparr>),
       chat_create = (\<lambda>model img. Inl ''Connection error.''),
       images_edit = (\<lambda>req. Inl ''Connection error.''),
       http_get = (\<lambda>url. Inl ''Connection error.''),
       b64decode = (\<lambda>s. Inl ''Incorrect padding''),
       random_index = 0,
       non_ascii_choice = (\<lambda>response. 0) \<rparr>"


definition sample_table :: table where
  "sample_table = \<lparr> rows = sample_db, next_id = 4 \<rparr>"

definition sample_upload :: "string option \<Rightarrow> upload_request" where
  "sample_upload choice =
     \<lparr> req_method = ''POST'', req_file = Some (''me.PNG'', ''PNG9''),
       req_pipeline_type = choice, req_user = Some 7,
       req_timestamp = ''20240102_030405'' \<rparr>"

text \<open>The same world with no credential anywhere.\<close>

definition no_key_world :: world where
  "no_key_world = offline_world \<lparr> config_api_key := None, environ_api_key := None \<rparr>"

text \<open>A freshly uploaded job of user 7.\<close>

definition uploaded_row :: generated_image where
  "uploaded_row = new_generated_image 7 ''PNG0'' None (Some ''gpt_only'')"

text \<open>
  The end-to-end scenario: the classifier answers with the JSON object for
  \<open>beagle\<close>; the edit call for the original returns a URL whose download is \<open>B1\<close>;
  the edit call for \<open>B1\<close> returns an inline payload that decodes to \<open>B2\<close>; the
  edit call for \<open>B2\<close> raises "connection reset".
\<close>

definition beagle_json :: string where
  "beagle_json = ''{'' @ dquote # ''breed'' @ dquote # '': '' @ dquote # ''beagle'' @ dquote # ''}''"

definition scenario_world :: world where
  "scenario_world =
     \<lparr> config_api_key = Some ''sk-test'', environ_api_key = None,
       pil_open = (\<lambda>content. Inr \<lparr> pic_mode = ''RGB'', pic_width = 1024,
                                     pic_height = 1024, pic_source = content \<rparr>),
       png_save_size = (\<lambda>img. 4 * pic_width img * pic_height img + 1000),
       pil_thumbnail = (\<lambda>img n. img \<lparr> pic_width := n, pic_height := n \<rparr>),
       chat_create = (\<lambda>model img. Inr [Some beagle_json]),
       images_edit =
         (\<lambda>req. if pic_source (file_picture (req_image req)) = ''PNG0''
                then Inr \<lparr> resp_data = Some [\<lparr> item_url = Some ''https://cdn.test/1.png'',
                                                 item_b64_json = None, item_repr = ''Image()'',
                                                 item_dir = ''[]'' \<rparr>],
                           resp_repr = ''ImagesResponse()'' \<rparr>
                else if pic_source (file_picture (req_image req)) = ''B1''
                then Inr \<lparr> resp_data = Some [\<lparr> item_url = None,
                                                 item_b64_json = Some ''QjI='',
                                                 item_repr = ''Image()'',
                                                 item_dir = ''[]'' \<rparr>],
                           resp_repr = ''ImagesResponse()'' \<rparr>
                else Inl ''connection reset''),
       http_get = (\<lambda>url. if url = Some ''https://cdn.test/1.png'' then Inr ''B1''
                          else Inl ''404 Client Error''),
       b64decode = (\<lambda>s. if s = ''QjI='' then Inr ''B2'' else Inl ''Incorrect padding''),
       random_index = 0,
       non_ascii_choice = (\<lambda>response. 0) \<rparr>"

text \<open>The response text \<^verbatim>\<open>{"breed": "husky"}\<close>.\<close>

definition husky_json :: string where
  "husky_json = ''{'' @ dquote # ''breed'' @ dquote # '': '' @ dquote # ''husky'' @ dquote # ''}''"




text \<open>The response text \<^verbatim>\<open>{"breed": "..."}\<close> for a given value.\<close>

definition breed_json :: "string \<Rightarrow> string" where
  "breed_json v = ''{'' @ dquote # ''breed'' @ dquote # '': '' @ dquote # v @ dquote # ''}''"

section \<open>Theorems\<close>

subsection \<open>Image retrieval\<close>

text \<open>
  Claim C7. A retrieval request from an authenticated account that is not the owner of
  the job is rejected: the view flashes "Unauthorized access" and redirects, whatever
  the slot name is and whether or not the slot holds data, so no image bytes are
  returned.
\<close>

theorem serve_image_rejects_non_owner:
  assumes "d image_id = Some image_record"
    and "user_id image_record \<noteq> uid"
  shows "serve_image d (Some uid) image_id image_type
           = RedirectDashboard ''Unauthorized access'' ''error''
         \<and> (\<forall>data mimetype.
               serve_image d (Some uid) image_id image_type \<noteq> ImageResponse data mimetype)"
  using assms by (simp add: serve_image_def)

theorem serve_image_rejects_non_owner_witness:
  "serve_image sample_db (Some 8) 3 ''transition1''
     = RedirectDashboard ''Unauthorized access'' ''error''
   \<and> serve_image sample_db (Some 8) 3 ''bogus''
     = RedirectDashboard ''Unauthorized access'' ''error''
   \<and> serve_image sample_db (Some 7) 3 ''transition1'' = ImageResponse ''PNG1'' ''image/png''"
proof -
  have row: "sample_db 3 = Some sample_row" by (simp add: sample_db_def)
  have other: "user_id sample_row \<noteq> 8" by (simp add: sample_row_def)
  have a: "serve_image sample_db (Some 8) 3 ''transition1''
             = RedirectDashboard ''Unauthorized access'' ''error''"
    using serve_image_rejects_non_owner [of sample_db 3 sample_row 8 "''transition1''"] row other
    by blast
  have b: "serve_image sample_db (Some 8) 3 ''bogus''
             = RedirectDashboard ''Unauthorized access'' ''error''"
    using serve_image_rejects_non_owner [of sample_db 3 sample_row 8 "''bogus''"] row other
    by blast
  have c: "serve_image sample_db (Some 7) 3 ''transition1'' = ImageResponse ''PNG1'' ''image/png''"
    by (simp add: serve_image_def sample_db_def sample_row_def select_slot_def)
  from a b c show ?thesis by blast
qed

text \<open>
  Claim C10. For a request by the owner of the job: a slot name other than
  \<open>original\<close>, \<open>transition1\<close>, \<open>transition2\<close> and \<open>final\<close> is answered by the
  "Invalid image type" redirect; a valid slot whose column is still unset is answered
  by the "Image not found" redirect; and the view returns image bytes exactly when the
  slot name is valid and the slot holds non-empty data, always with mimetype
  \<open>image/png\<close>.
\<close>

theorem serve_image_owner_slots:
  assumes "d image_id = Some image_record"
    and "user_id image_record = uid"
  shows "(image_type \<notin> {''original'', ''transition1'', ''transition2'', ''final''} \<longrightarrow>
            serve_image d (Some uid) image_id image_type
              = RedirectDashboard ''Invalid image type'' ''error'')
       \<and> (select_slot image_record image_type = Some None \<longrightarrow>
            serve_image d (Some uid) image_id image_type
              = RedirectDashboard ''Image not found'' ''error'')
       \<and> (\<forall>data mimetype.
            serve_image d (Some uid) image_id image_type = ImageResponse data mimetype
              \<longleftrightarrow> (image_type \<in> {''original'', ''transition1'', ''transition2'', ''final''}
                   \<and> select_slot image_record image_type = Some (Some data)
                   \<and> data \<noteq> [] \<and> mimetype = ''image/png''))"
proof (intro conjI impI allI)
  assume "image_type \<notin> {''original'', ''transition1'', ''transition2'', ''final''}"
  then have "select_slot image_record image_type = None"
    by (simp add: select_slot_def)
  with assms show "serve_image d (Some uid) image_id image_type
                     = RedirectDashboard ''Invalid image type'' ''error''"
    by (simp add: serve_image_def)
next
  assume "select_slot image_record image_type = Some None"
  with assms show "serve_image d (Some uid) image_id image_type
                     = RedirectDashboard ''Image not found'' ''error''"
    by (simp add: serve_image_def)
next
  fix data mimetype
  have valid: "select_slot image_record image_type \<noteq> None
                 \<longleftrightarrow> image_type \<in> {''original'', ''transition1'', ''transition2'', ''final''}"
    by (simp add: select_slot_def)
  show "serve_image d (Some uid) image_id image_type = ImageResponse data mimetype
          \<longleftrightarrow> (image_type \<in> {''original'', ''transition1'', ''transition2'', ''final''}
               \<and> select_slot image_record image_type = Some (Some data)
               \<and> data \<noteq> [] \<and> mimetype = ''image/png'')"
  proof (cases "select_slot image_record image_type")
    case None
    with assms valid show ?thesis by (simp add: serve_image_def)
  next
    case (Some image_data)
    with valid have v: "image_type \<in> {''original'', ''transition1'', ''transition2'', ''final''}"
      by simp
    show ?thesis
    proof (cases image_data)
      case None
      with Some assms show ?thesis by (simp add: serve_image_def)
    next
      case (Some b)
      with \<open>select_slot image_record image_type = Some image_data\<close> assms v show ?thesis
        by (auto simp: serve_image_def)
    qed
  qed
qed

theorem serve_image_owner_slots_witness:
  "serve_image sample_db (Some 7) 3 ''thumbnail''
     = RedirectDashboard ''Invalid image type'' ''error''
   \<and> serve_image sample_db (Some 7) 3 ''final''
     = RedirectDashboard ''Image not found'' ''error''
   \<and> serve_image sample_db (Some 7) 3 ''original'' = ImageResponse ''PNG0'' ''image/png''"
proof -
  have row: "sample_db 3 = Some sample_row" by (simp add: sample_db_def)
  have own: "user_id sample_row = 7" by (simp add: sample_row_def)
  have unset: "select_slot sample_row ''final'' = Some None"
    by (simp add: select_slot_def sample_row_def)
  have orig: "select_slot sample_row ''original'' = Some (Some ''PNG0'')"
    by (simp add: select_slot_def sample_row_def)
  note th = serve_image_owner_slots [of sample_db 3 sample_row 7]
  have a: "serve_image sample_db (Some 7) 3 ''thumbnail''
             = RedirectDashboard ''Invalid image type'' ''error''"
    using th [of "''thumbnail''"] row own by simp
  have b: "serve_image sample_db (Some 7) 3 ''final''
             = RedirectDashboard ''Image not found'' ''error''"
    using th [of "''final''"] row own unset by simp
  have c: "serve_image sample_db (Some 7) 3 ''original'' = ImageResponse ''PNG0'' ''image/png''"
    using th [of "''original''"] row own orig by simp
  from a b c show ?thesis by blast
qed

subsection \<open>Size Normalizer\<close>

lemma ensure_png_under_4mb_cases:
  "(file_size f \<le> 3670016 \<longrightarrow> ensure_png_under_4mb w f = (f, 1024))
   \<and> (3670016 < file_size f \<longrightarrow>
        ensure_png_under_4mb w f = (save_png w (resize (file_picture f) 512 512), 512))"
  by (simp add: ensure_png_under_4mb_def max_size_bytes_def Let_def)




subsection \<open>Mask Generator\<close>

text \<open>
  Claim C8. For every size \<open>S\<close> the face mask is an \<open>S\<close> by \<open>S\<close> image, opaque
  except for one ellipse drawn transparent. The ellipse's bounding box is \<open>S div 2\<close>
  wide and high (50 percent of \<open>S\<close>, rounded down), its top edge is at \<open>S div 5\<close>
  (20 percent of \<open>S\<close>, rounded down), and it is centred horizontally up to one pixel
  of rounding. Whatever pixels the rasteriser paints for that box, those and only those
  are transparent (alpha 0); every other pixel is fully opaque (alpha 255). At
  \<open>S = 1000\<close> the box is x from 250 to 750 and y from 200 to 700.
\<close>

theorem create_face_mask_region:
  "(let m = create_face_mask S None None;
        left = (int S - int S div 2) div 2;
        top = int S div 5;
        right = left + int S div 2;
        bottom = top + int S div 2
    in mask_size m = S
       \<and> mask_background m = opaque
       \<and> mask_ellipses m = [((left, top, right, bottom), transparent)]
       \<and> right - left = int S div 2 \<and> bottom - top = int S div 2
       \<and> 2 * (right - left) \<le> int S \<and> int S < 2 * (right - left) + 2
       \<and> 5 * top \<le> int S \<and> int S < 5 * top + 5
       \<and> \<bar>left - (int S - right)\<bar> \<le> 1
       \<and> (\<forall>covers p. alpha (pixel_at covers m p)
                         = (if covers (left, top, right, bottom) p then 0 else 255)))
   \<and> mask_ellipses (create_face_mask 1000 None None)
       = [((250, 200, 750, 700), transparent)]"
proof -
  have single: "\<And>covers p.
      alpha (pixel_at covers (create_face_mask S None None) p)
        = (if covers ((int S - int S div 2) div 2, int S div 5,
                      (int S - int S div 2) div 2 + int S div 2,
                      int S div 5 + int S div 2) p
           then 0 else 255)"
    by (simp add: create_face_mask_def pixel_at_def alpha_def opaque_def transparent_def Let_def)
  have centred: "\<bar>(int S - int S div 2) div 2
                   - (int S - ((int S - int S div 2) div 2 + int S div 2))\<bar> \<le> 1"
    by presburger
  have at1000: "mask_ellipses (create_face_mask 1000 None None)
                  = [((250, 200, 750, 700), transparent)]"
    by (simp add: create_face_mask_def Let_def)
  have shape: "mask_size (create_face_mask S None None) = S
      \<and> mask_background (create_face_mask S None None) = opaque
      \<and> mask_ellipses (create_face_mask S None None)
          = [(((int S - int S div 2) div 2, int S div 5,
               (int S - int S div 2) div 2 + int S div 2,
               int S div 5 + int S div 2), transparent)]"
    by (simp add: create_face_mask_def Let_def)
  have half: "2 * (int S div 2) \<le> int S \<and> int S < 2 * (int S div 2) + 2" by presburger
  have fifth: "5 * (int S div 5) \<le> int S \<and> int S < 5 * (int S div 5) + 5" by presburger
  from single centred at1000 shape half fifth show ?thesis
    by (simp add: Let_def)
qed

theorem create_face_mask_region_witness:
  "alpha (pixel_at ideal_ellipse (create_face_mask 1000 None None) (500, 450)) = 0
   \<and> alpha (pixel_at ideal_ellipse (create_face_mask 1000 None None) (250, 200)) = 255
   \<and> alpha (pixel_at ideal_ellipse (create_face_mask 1000 None None) (0, 0)) = 255
   \<and> alpha (pixel_at ideal_ellipse (create_face_mask 1000 None None) (500, 800)) = 255"
proof -
  have box: "\<And>p. alpha (pixel_at ideal_ellipse (create_face_mask 1000 None None) p)
                  = (if ideal_ellipse (250, 200, 750, 700) p then 0 else 255)"
  proof -
    fix p
    have "\<forall>covers q. alpha (pixel_at covers (create_face_mask 1000 None None) q)
                        = (if covers (250, 200, 750, 700) q then 0 else 255)"
      using create_face_mask_region [of 1000] by (simp add: Let_def)
    then show "alpha (pixel_at ideal_ellipse (create_face_mask 1000 None None) p)
                 = (if ideal_ellipse (250, 200, 750, 700) p then 0 else 255)"
      by blast
  qed
  show ?thesis
    by (simp add: box ideal_ellipse_def)
qed

subsection \<open>Strategy selection, batch creation and the job runner\<close>

lemma contains_here: "contains n (n @ post)"
proof (cases "n @ post")
  case Nil
  then show ?thesis by simp
next
  case (Cons c cs)
  have "prefix n (n @ post)" by simp
  with Cons show ?thesis by simp
qed

lemma contains_append: "contains n (pre @ n @ post)"
  by (induction pre) (auto simp: contains_here)

lemma job_commits_not_empty: "job_commits w r p \<noteq> []"
  by (simp add: job_commits_def Let_def split: prod.splits sum.splits)

lemma trace_other_row:
  assumes "other \<noteq> image_id"
    and "c \<in> set (process_image_generation_trace w d image_id p)"
  shows "c other = d other"
  using assms by (auto simp: process_image_generation_trace_def split: option.splits)

lemma process_other_row:
  assumes "other \<noteq> image_id"
  shows "process_image_generation w d image_id p other = d other"
proof (cases "process_image_generation_trace w d image_id p")
  case Nil
  then show ?thesis by (simp add: process_image_generation_def)
next
  case (Cons c cs)
  then have "last (c # cs) \<in> set (process_image_generation_trace w d image_id p)"
    using last_in_set [of "c # cs"] by simp
  with assms have "last (c # cs) other = d other"
    by (rule trace_other_row)
  with Cons show ?thesis by (simp add: process_image_generation_def)
qed

lemma stages_not_dalle:
  assumes "p \<noteq> ''dalle_gpt''"
  shows "stage_1 w p a b c = edit_image_with_gpt_image1 w a b 1024 ''safe_radius'' (Some c)"
    and "stage_2 w p a b c = edit_image_with_gpt_image1 w a b 1024 ''face'' (Some c)"
    and "stage_3 w p a n f = finalize_with_gpt_image1 w a n f"
  using assms by (simp_all add: stage_1_def stage_2_def stage_3_def)

lemma generate_not_dalle:
  assumes "p \<noteq> ''dalle_gpt''"
  shows "generate_transformation_images w a d b p
           = generate_transformation_images w a d b ''gpt_only''"
proof -
  have s1: "stage_1 w p = stage_1 w ''gpt_only''"
    using assms by (intro ext) (simp add: stage_1_def)
  have s2: "stage_2 w p = stage_2 w ''gpt_only''"
    using assms by (intro ext) (simp add: stage_2_def)
  have s3: "stage_3 w p = stage_3 w ''gpt_only''"
    using assms by (intro ext) (simp add: stage_3_def)
  show ?thesis
    unfolding generate_transformation_images_def s1 s2 s3 by (rule refl)
qed

text \<open>
  Claim C9. The choice of strategy is one comparison with \<open>"dalle_gpt"\<close>: with any
  other pipeline kind every stage calls the function of the \<open>gpt_only\<close> strategy, so
  the whole run is the run for \<open>"gpt_only"\<close>. The upload view checks nothing either: a
  missing form field becomes \<open>"gpt_only"\<close>, and any other value than \<open>"both"\<close> is
  stored in the new row and handed to the job as it is.
\<close>

theorem pipeline_type_binary:
  assumes "p \<noteq> ''dalle_gpt''"
  shows "stage_1 w p src prompt m
           = edit_image_with_gpt_image1 w src prompt 1024 ''safe_radius'' (Some m)
       \<and> stage_2 w p src prompt m
           = edit_image_with_gpt_image1 w src prompt 1024 ''face'' (Some m)
       \<and> stage_3 w p src display features = finalize_with_gpt_image1 w src display features
       \<and> generate_transformation_images w src description breed p
           = generate_transformation_images w src description breed ''gpt_only''
       \<and> job_commits w r p = job_commits w r ''gpt_only''
       \<and> process_image_generation w d image_id p
           = process_image_generation w d image_id ''gpt_only''
       \<and> (req_user req = Some uid \<and> req_method req = ''POST''
            \<and> req_file req = Some (filename, file_data) \<and> filename \<noteq> []
            \<and> allowed_file filename \<longrightarrow>
            (req_pipeline_type req = None \<longrightarrow>
               up_threads (upload t req) = [(next_id t, ''gpt_only'')]
               \<and> rows (up_table (upload t req)) (next_id t)
                   = Some (new_generated_image uid file_data None (Some ''gpt_only'')))
            \<and> (req_pipeline_type req = Some p \<and> p \<noteq> ''both'' \<longrightarrow>
               up_response (upload t req) = RedirectToDashboard
               \<and> up_threads (upload t req) = [(next_id t, p)]
               \<and> rows (up_table (upload t req)) (next_id t)
                   = Some (new_generated_image uid file_data None (Some p))))"
proof -
  have g: "\<And>a d b. generate_transformation_images w a d b p
             = generate_transformation_images w a d b ''gpt_only''"
    using assms by (rule generate_not_dalle)
  have j: "job_commits w r p = job_commits w r ''gpt_only''" for r
    unfolding job_commits_def g by (rule refl)
  have pr: "process_image_generation w d image_id p
              = process_image_generation w d image_id ''gpt_only''"
    unfolding process_image_generation_def process_image_generation_trace_def j
    by (rule refl)
  have up: "req_user req = Some uid \<and> req_method req = ''POST''
            \<and> req_file req = Some (filename, file_data) \<and> filename \<noteq> []
            \<and> allowed_file filename \<longrightarrow>
            (req_pipeline_type req = None \<longrightarrow>
               up_threads (upload t req) = [(next_id t, ''gpt_only'')]
               \<and> rows (up_table (upload t req)) (next_id t)
                   = Some (new_generated_image uid file_data None (Some ''gpt_only'')))
            \<and> (req_pipeline_type req = Some p \<and> p \<noteq> ''both'' \<longrightarrow>
               up_response (upload t req) = RedirectToDashboard
               \<and> up_threads (upload t req) = [(next_id t, p)]
               \<and> rows (up_table (upload t req)) (next_id t)
                   = Some (new_generated_image uid file_data None (Some p)))"
    by (simp add: upload_def Let_def)
  from stages_not_dalle [OF assms] g j pr up show ?thesis by blast
qed

lemma sample_upload_allowed: "allowed_file ''me.PNG''"
  by (simp add: allowed_file_def rsplit_ext_def lower_def lower_char_def ALLOWED_EXTENSIONS_def)

theorem pipeline_type_binary_witness:
  "job_commits offline_world uploaded_row ''banana''
     = job_commits offline_world uploaded_row ''gpt_only''
   \<and> up_threads (upload sample_table (sample_upload (Some ''banana''))) = [(4, ''banana'')]
   \<and> rows (up_table (upload sample_table (sample_upload (Some ''banana'')))) 4
       = Some (new_generated_image 7 ''PNG9'' None (Some ''banana''))
   \<and> up_threads (upload sample_table (sample_upload None)) = [(4, ''gpt_only'')]"
proof -
  have ne: "''banana'' \<noteq> ''dalle_gpt''" by simp
  have a: "job_commits offline_world uploaded_row ''banana''
             = job_commits offline_world uploaded_row ''gpt_only''"
    using pipeline_type_binary [OF ne, where w = offline_world and r = uploaded_row]
    by blast
  have b: "up_threads (upload sample_table (sample_upload (Some ''banana''))) = [(4, ''banana'')]
           \<and> rows (up_table (upload sample_table (sample_upload (Some ''banana'')))) 4
               = Some (new_generated_image 7 ''PNG9'' None (Some ''banana''))"
    using pipeline_type_binary [OF ne, where req = "sample_upload (Some ''banana'')"
        and t = sample_table and uid = 7 and filename = "''me.PNG''" and file_data = "''PNG9''"]
      sample_upload_allowed
    by (simp add: sample_upload_def sample_table_def)
  have c: "up_threads (upload sample_table (sample_upload None)) = [(4, ''gpt_only'')]"
    using pipeline_type_binary [OF ne, where req = "sample_upload None"
        and t = sample_table and uid = 7 and filename = "''me.PNG''" and file_data = "''PNG9''"]
      sample_upload_allowed
    by (simp add: sample_upload_def sample_table_def)
  from a b c show ?thesis by blast
qed

text \<open>
  Claim C6. An upload that selects \<open>both\<close> makes one commit that inserts exactly two
  new rows under two fresh, distinct keys and leaves every other row alone. The two rows
  carry the same batch id, the pipeline kinds \<open>dalle_gpt\<close> and \<open>gpt_only\<close>, and
  the same bytes as original image, and one job is started for each. The jobs are
  independent: a run for one of the two keys, in any world and from any table, never
  changes the row of the other, in no table it commits and whether it fails or not.
\<close>

theorem upload_both_creates_pair:
  assumes "req_user req = Some uid"
    and "req_method req = ''POST''"
    and "req_file req = Some (filename, file_data)"
    and "filename \<noteq> []"
    and "allowed_file filename"
    and "req_pipeline_type req = Some ''both''"
    and "table_ok t"
  shows "(let res = upload t req;
              i1 = next_id t;
              i2 = Suc (next_id t);
              batch = str_nat uid @ ''_'' @ req_timestamp req
          in up_commits res = [up_table res]
             \<and> up_threads res = [(i1, ''dalle_gpt''), (i2, ''gpt_only'')]
             \<and> i1 \<noteq> i2 \<and> i1 \<notin> dom (rows t) \<and> i2 \<notin> dom (rows t)
             \<and> dom (rows (up_table res)) = dom (rows t) \<union> {i1, i2}
             \<and> (\<forall>k. k \<noteq> i1 \<and> k \<noteq> i2 \<longrightarrow> rows (up_table res) k = rows t k)
             \<and> rows (up_table res) i1
                 = Some (new_generated_image uid file_data (Some batch) (Some ''dalle_gpt''))
             \<and> rows (up_table res) i2
                 = Some (new_generated_image uid file_data (Some batch) (Some ''gpt_only''))
             \<and> batch_id (the (rows (up_table res) i1)) = Some batch
             \<and> batch_id (the (rows (up_table res) i2)) = Some batch
             \<and> pipeline_type (the (rows (up_table res) i1)) = Some ''dalle_gpt''
             \<and> pipeline_type (the (rows (up_table res) i2)) = Some ''gpt_only''
             \<and> original_image_data (the (rows (up_table res) i1)) = file_data
             \<and> original_image_data (the (rows (up_table res) i2)) = file_data
             \<and> (\<forall>w d p. process_image_generation w d i1 p i2 = d i2
                        \<and> process_image_generation w d i2 p i1 = d i1
                        \<and> (\<forall>c \<in> set (process_image_generation_trace w d i1 p). c i2 = d i2)
                        \<and> (\<forall>c \<in> set (process_image_generation_trace w d i2 p). c i1 = d i1)))"
proof -
  let ?i1 = "next_id t"
  let ?i2 = "Suc (next_id t)"
  let ?batch = "str_nat uid @ ''_'' @ req_timestamp req"
  let ?r1 = "new_generated_image uid file_data (Some ?batch) (Some ''dalle_gpt'')"
  let ?r2 = "new_generated_image uid file_data (Some ?batch) (Some ''gpt_only'')"
  let ?t' = "\<lparr> rows = (rows t)(?i1 \<mapsto> ?r1, ?i2 \<mapsto> ?r2), next_id = Suc (Suc (next_id t)) \<rparr>"
  have res: "upload t req
               = \<lparr> up_response = RedirectToDashboard,
                   up_flashes = [(''Image uploaded! Both pipelines running simultaneously.'',
                                  ''success'')],
                   up_commits = [?t'], up_table = ?t',
                   up_threads = [(?i1, ''dalle_gpt''), (?i2, ''gpt_only'')] \<rparr>"
    using assms by (simp add: upload_def Let_def)
  have fresh: "?i1 \<notin> dom (rows t)" "?i2 \<notin> dom (rows t)"
    using \<open>table_ok t\<close> by (auto simp: table_ok_def)
  have fields: "batch_id ?r1 = Some ?batch" "batch_id ?r2 = Some ?batch"
    "pipeline_type ?r1 = Some ''dalle_gpt''" "pipeline_type ?r2 = Some ''gpt_only''"
    "original_image_data ?r1 = file_data" "original_image_data ?r2 = file_data"
    by (simp_all add: new_generated_image_def)
  have indep: "\<forall>w d p. process_image_generation w d ?i1 p ?i2 = d ?i2
                        \<and> process_image_generation w d ?i2 p ?i1 = d ?i1
                        \<and> (\<forall>c \<in> set (process_image_generation_trace w d ?i1 p). c ?i2 = d ?i2)
                        \<and> (\<forall>c \<in> set (process_image_generation_trace w d ?i2 p). c ?i1 = d ?i1)"
    using trace_other_row [of ?i2 ?i1] trace_other_row [of ?i1 ?i2]
    by (simp add: process_other_row)
  have domeq: "dom (rows ?t') = dom (rows t) \<union> {?i1, ?i2}" by auto
  show ?thesis
    unfolding Let_def res
    using fresh fields indep domeq by simp
qed

lemma no_key_detect:
  assumes "\<not> truthy (get_api_key w)"
  shows "detect_dog_breed w x = golden_retriever_default"
  using assms by (simp add: detect_dog_breed_def detect_dog_breed_body_def)

lemma no_key_stage_1:
  assumes "\<not> truthy (get_api_key w)"
  shows "stage_1 w p a b c = Inl api_key_error"
  using assms
  by (simp add: stage_1_def edit_image_with_dalle_def edit_image_with_gpt_image1_def)

lemma no_key_generate:
  assumes "\<not> truthy (get_api_key w)"
  shows "generate_transformation_images w a d b p
           = (case pil_open w a of
                Inl e \<Rightarrow> Inl e
              | Inr img \<Rightarrow> Inl (''Stage 1 Error (adding ears): '' @ api_key_error))"
  by (simp add: generate_transformation_images_def Let_def no_key_stage_1 [OF assms]
      split: sum.splits)

lemma no_key_job_commits:
  assumes "\<not> truthy (get_api_key w)"
  shows "job_commits w r p
           = [r \<lparr> status := ''detecting'' \<rparr>,
              r \<lparr> status := ''generating_1'', breed_detected := Some ''golden_retriever'' \<rparr>,
              r \<lparr> status := ''error'', breed_detected := Some ''golden_retriever'',
                  error_message :=
                    Some (''Error: ''
                          @ (case pil_open w (original_image_data r) of
                               Inl e \<Rightarrow> e
                             | Inr img \<Rightarrow> ''Stage 1 Error (adding ears): '' @ api_key_error)) \<rparr>]"
  by (simp add: job_commits_def Let_def no_key_detect [OF assms] no_key_generate [OF assms]
      golden_retriever_default_def split: sum.splits)

lemma no_key_world_has_no_key: "\<not> truthy (get_api_key no_key_world)"
  by (simp add: no_key_world_def get_api_key_def)

theorem upload_both_creates_pair_witness:
  "up_threads (upload sample_table (sample_upload (Some ''both'')))
     = [(4, ''dalle_gpt''), (5, ''gpt_only'')]
   \<and> rows (up_table (upload sample_table (sample_upload (Some ''both'')))) 4
       = Some (new_generated_image 7 ''PNG9'' (Some ''7_20240102_030405'') (Some ''dalle_gpt''))
   \<and> rows (up_table (upload sample_table (sample_upload (Some ''both'')))) 5
       = Some (new_generated_image 7 ''PNG9'' (Some ''7_20240102_030405'') (Some ''gpt_only''))
   \<and> up_commits (upload sample_table (sample_upload (Some ''both'')))
       = [up_table (upload sample_table (sample_upload (Some ''both'')))]
   \<and> status (the (process_image_generation no_key_world
                     (rows (up_table (upload sample_table (sample_upload (Some ''both''))))) 4
                     ''dalle_gpt'' 4)) = ''error''
   \<and> process_image_generation no_key_world
        (rows (up_table (upload sample_table (sample_upload (Some ''both''))))) 4 ''dalle_gpt'' 5
       = Some (new_generated_image 7 ''PNG9'' (Some ''7_20240102_030405'') (Some ''gpt_only''))"
proof -
  let ?req = "sample_upload (Some ''both'')"
  have ok: "table_ok sample_table"
    by (auto simp: table_ok_def sample_table_def sample_db_def split: if_splits)
  have s7: "str_nat 7 = ''7''" by simp
  note th = upload_both_creates_pair [where req = ?req and t = sample_table and uid = 7
      and filename = "''me.PNG''" and file_data = "''PNG9''", unfolded Let_def]
  have pre: "req_user ?req = Some 7" "req_method ?req = ''POST''"
    "req_file ?req = Some (''me.PNG'', ''PNG9'')" "''me.PNG'' \<noteq> []"
    "req_pipeline_type ?req = Some ''both''" "req_timestamp ?req = ''20240102_030405''"
    "next_id sample_table = 4"
    by (simp_all add: sample_upload_def sample_table_def)
  note th' = th [OF pre(1) pre(2) pre(3) pre(4) sample_upload_allowed pre(5) ok]
  have a: "up_threads (upload sample_table ?req) = [(4, ''dalle_gpt''), (5, ''gpt_only'')]"
    using th' pre(7) by simp
  have r4: "rows (up_table (upload sample_table ?req)) 4
       = Some (new_generated_image 7 ''PNG9'' (Some ''7_20240102_030405'') (Some ''dalle_gpt''))"
    using th' pre(6) pre(7) s7 by simp
  have r5: "rows (up_table (upload sample_table ?req)) 5
       = Some (new_generated_image 7 ''PNG9'' (Some ''7_20240102_030405'') (Some ''gpt_only''))"
    using th' pre(6) pre(7) s7 by simp
  have c: "up_commits (upload sample_table ?req) = [up_table (upload sample_table ?req)]"
    using th' by simp
  have other: "process_image_generation no_key_world (rows (up_table (upload sample_table ?req)))
                 4 ''dalle_gpt'' 5 = rows (up_table (upload sample_table ?req)) 5"
    using th' pre(7) by simp
  have failed: "status (the (process_image_generation no_key_world
                     (rows (up_table (upload sample_table ?req))) 4 ''dalle_gpt'' 4)) = ''error''"
    using r4
    by (simp add: process_image_generation_def process_image_generation_trace_def
        no_key_job_commits [OF no_key_world_has_no_key])
  from a r4 r5 c other failed show ?thesis by simp
qed

subsection \<open>Breed Classifier: errors\<close>

lemma find_in_set: "find P xs = Some x \<Longrightarrow> x \<in> set xs"
  by (induction xs) (auto split: if_splits)

lemma select_breed_is_key: "select_breed w raw \<in> set breed_keys"
proof -
  have map_vals: "\<And>x y. map_of breed_mapping x = Some y \<Longrightarrow> y \<in> set breed_keys"
  proof -
    fix x y assume "map_of breed_mapping x = Some y"
    then have "(x, y) \<in> set breed_mapping" by (rule map_of_SomeD)
    then show "y \<in> set breed_keys"
      by (auto simp: breed_mapping_def breed_keys_def DOG_BREEDS_def)
  qed
  have j: "\<And>r b. json_step r = Some b \<Longrightarrow> b \<in> set breed_keys"
    by (auto simp: json_step_def Let_def split: option.splits if_splits dest: map_vals)
  have k: "\<And>r b. direct_key_step r = Some b \<Longrightarrow> b \<in> set breed_keys"
    by (auto simp: direct_key_step_def dest: find_in_set)
  have m: "\<And>r b. mapping_step r = Some b \<Longrightarrow> b \<in> set breed_keys"
  proof -
    fix r b assume "mapping_step r = Some b"
    then obtain v where "find (\<lambda>(variant, key). word_search variant r) breed_mapping = Some (v, b)"
      by (auto simp: mapping_step_def)
    then have "(v, b) \<in> set breed_mapping"
      by (rule find_in_set)
    then show "b \<in> set breed_keys"
      by (auto simp: breed_mapping_def breed_keys_def DOG_BREEDS_def)
  qed
  have len: "length breed_keys = 8" by (simp add: breed_keys_def DOG_BREEDS_def)
  have c: "random_choice w breed_keys \<in> set breed_keys"
    unfolding random_choice_def by (rule nth_mem) (simp add: len)
  have g: "''golden_retriever'' \<in> set breed_keys" by (simp add: breed_keys_def DOG_BREEDS_def)
  have n: "breed_keys ! (non_ascii_choice w raw mod length breed_keys) \<in> set breed_keys"
    by (rule nth_mem) (simp add: len)
  show ?thesis
  proof (cases "ascii_text raw")
    case False
    with n show ?thesis by (simp add: select_breed_def)
  next
    case True
    with j k m c g show ?thesis
      by (auto simp: select_breed_def Let_def split: option.splits)
  qed
qed

lemma body_result:
  assumes "detect_dog_breed_body w x = Inr (b, d)"
  shows "b \<in> set breed_keys \<and> (\<exists>fs. map_of DOG_BREEDS b = Some (fs, d))"
proof -
  from assms obtain content where b: "b = select_breed w (strip content)"
    and look: "\<exists>fs. map_of DOG_BREEDS (select_breed w (strip content)) = Some (fs, d)"
    by (auto simp: detect_dog_breed_body_def Let_def
        split: if_splits sum.splits list.splits option.splits prod.splits)
  from b look select_breed_is_key [of w "strip content"] show ?thesis by simp
qed

lemma default_is_key:
  "fst golden_retriever_default \<in> set breed_keys
   \<and> map_of DOG_BREEDS (fst golden_retriever_default)
       = Some ([''friendly'', ''blonde'', ''long_hair'', ''medium_size'', ''kind_eyes''],
               snd golden_retriever_default)"
  by (simp add: golden_retriever_default_def breed_keys_def DOG_BREEDS_def)

lemma body_error_gives_default:
  "detect_dog_breed_body w x = Inl e \<Longrightarrow> detect_dog_breed w x = golden_retriever_default"
  by (simp add: detect_dog_breed_def)

lemma api_failure_body:
  assumes "\<forall>model img. isl (chat_create w model img)"
  shows "isl (detect_dog_breed_body w x)"
proof -
  have "\<And>model img. \<exists>e. chat_create w model img = Inl e"
    using assms by (metis isl_def)
  then have both: "\<And>img. \<exists>e. (case chat_create w ''gpt-4o-mini'' img of
                                   Inl mini_error \<Rightarrow> chat_create w ''gpt-4o'' img
                                 | Inr r \<Rightarrow> Inr r) = Inl e"
    by (metis sum.case(1))
  show ?thesis
  proof (cases "truthy (get_api_key w)")
    case False
    then show ?thesis by (simp add: detect_dog_breed_body_def)
  next
    case True
    show ?thesis
    proof (cases "pil_open w x")
      case (Inl e)
      with True show ?thesis by (simp add: detect_dog_breed_body_def)
    next
      case (Inr opened)
      let ?img = "if 2048 < max (pic_width (convert_rgb opened)) (pic_height (convert_rgb opened))
                  then pil_thumbnail w (convert_rgb opened) 2048 else convert_rgb opened"
      from both [of ?img] obtain e where
        "(case chat_create w ''gpt-4o-mini'' ?img of
            Inl mini_error \<Rightarrow> chat_create w ''gpt-4o'' ?img
          | Inr r \<Rightarrow> Inr r) = Inl e" by blast
      with True Inr show ?thesis
        by (simp add: detect_dog_breed_body_def Let_def)
    qed
  qed
qed

text \<open>
  Claim C5. The classifier never raises: whenever the body of its \<open>try\<close> fails, with
  whatever error, the result is the fixed default \<open>golden_retriever\<close> with its
  description. That covers total failure of the external API (both model calls raise), a
  missing credential and an image that cannot be opened. In every case the result is one
  of the eight keys together with that key's description.
\<close>

theorem detect_dog_breed_never_raises:
  "(\<forall>e. detect_dog_breed_body w x = Inl e \<longrightarrow>
        detect_dog_breed w x = (''golden_retriever'', ''friendly and gentle Golden Retriever''))
   \<and> ((\<forall>model img. isl (chat_create w model img)) \<longrightarrow>
        detect_dog_breed w x = (''golden_retriever'', ''friendly and gentle Golden Retriever''))
   \<and> (\<not> truthy (get_api_key w) \<longrightarrow>
        detect_dog_breed w x = (''golden_retriever'', ''friendly and gentle Golden Retriever''))
   \<and> (isl (pil_open w x) \<longrightarrow>
        detect_dog_breed w x = (''golden_retriever'', ''friendly and gentle Golden Retriever''))
   \<and> fst (detect_dog_breed w x) \<in> set breed_keys
   \<and> (\<exists>features. map_of DOG_BREEDS (fst (detect_dog_breed w x))
                     = Some (features, snd (detect_dog_breed w x)))"
proof -
  have a: "\<forall>e. detect_dog_breed_body w x = Inl e \<longrightarrow>
             detect_dog_breed w x = (''golden_retriever'', ''friendly and gentle Golden Retriever'')"
    by (simp add: detect_dog_breed_def golden_retriever_default_def)
  have b: "(\<forall>model img. isl (chat_create w model img)) \<longrightarrow>
             detect_dog_breed w x = (''golden_retriever'', ''friendly and gentle Golden Retriever'')"
  proof
    assume "\<forall>model img. isl (chat_create w model img)"
    then have "isl (detect_dog_breed_body w x)" by (rule api_failure_body)
    then obtain e where "detect_dog_breed_body w x = Inl e" by (auto simp: isl_def)
    with a show "detect_dog_breed w x
                   = (''golden_retriever'', ''friendly and gentle Golden Retriever'')" by blast
  qed
  have c: "\<not> truthy (get_api_key w) \<longrightarrow>
             detect_dog_breed w x = (''golden_retriever'', ''friendly and gentle Golden Retriever'')"
    by (simp add: detect_dog_breed_def detect_dog_breed_body_def golden_retriever_default_def)
  have d: "isl (pil_open w x) \<longrightarrow>
             detect_dog_breed w x = (''golden_retriever'', ''friendly and gentle Golden Retriever'')"
    by (auto simp: detect_dog_breed_def detect_dog_breed_body_def golden_retriever_default_def
        isl_def)
  have e: "fst (detect_dog_breed w x) \<in> set breed_keys
           \<and> (\<exists>features. map_of DOG_BREEDS (fst (detect_dog_breed w x))
                             = Some (features, snd (detect_dog_breed w x)))"
  proof (cases "detect_dog_breed_body w x")
    case (Inl err)
    then have "detect_dog_breed w x = golden_retriever_default"
      by (rule body_error_gives_default)
    with default_is_key show ?thesis by auto
  next
    case (Inr res)
    then have "detect_dog_breed_body w x = Inr (fst res, snd res)" by simp
    from body_result [OF this] Inr show ?thesis by (simp add: detect_dog_breed_def)
  qed
  from a b c d e show ?thesis by blast
qed

theorem detect_dog_breed_never_raises_witness:
  "detect_dog_breed offline_world ''PNG0''
     = (''golden_retriever'', ''friendly and gentle Golden Retriever'')
   \<and> detect_dog_breed no_key_world ''PNG0''
     = (''golden_retriever'', ''friendly and gentle Golden Retriever'')"
proof -
  have fail: "\<forall>model img. isl (chat_create offline_world model img)"
    by (simp add: offline_world_def)
  have nokey: "\<not> truthy (get_api_key no_key_world)"
    by (simp add: no_key_world_def get_api_key_def)
  have a: "detect_dog_breed offline_world ''PNG0''
             = (''golden_retriever'', ''friendly and gentle Golden Retriever'')"
    using detect_dog_breed_never_raises [of offline_world "''PNG0''"] fail by blast
  have b: "detect_dog_breed no_key_world ''PNG0''
             = (''golden_retriever'', ''friendly and gentle Golden Retriever'')"
    using detect_dog_breed_never_raises [of no_key_world "''PNG0''"] nokey by blast
  from a b show ?thesis by simp
qed

subsection \<open>Failing jobs\<close>

lemma process_last:
  assumes "d image_id = Some r"
  shows "process_image_generation w d image_id p = d(image_id \<mapsto> last (job_commits w r p))"
proof -
  obtain c cs where cs: "job_commits w r p = c # cs"
    using job_commits_not_empty [of w r p] by (cases "job_commits w r p") auto
  have "last (map (\<lambda>x. d(image_id \<mapsto> x)) (c # cs)) = d(image_id \<mapsto> last (c # cs))"
    by (rule last_map) simp
  with assms cs show ?thesis
    by (simp add: process_image_generation_def process_image_generation_trace_def)
qed

lemma generate_stage_3_failure:
  assumes "pil_open w src = Inr img"
    and "stage_1 w p src
           (ears_prompt (ear_type_of (breed_features_of breed))
              (breed_name_display_of description breed))
           (create_face_mask 1024 None None) = Inr b1"
    and "stage_2 w p b1 (snout_prompt (breed_name_display_of description breed))
           (create_face_mask 1024 None None) = Inr b2"
    and "stage_3 w p b2 (breed_name_display_of description breed) (breed_features_of breed)
           = Inl m"
  shows "generate_transformation_images w src description breed p
           = Inl (''Stage 3 Error (finalizing with gpt-image-1): '' @ m)"
  using assms by (simp add: generate_transformation_images_def Let_def)

lemma job_commits_failure:
  assumes "detect_dog_breed w (original_image_data r) = (breed, description)"
    and "generate_transformation_images w (original_image_data r) description (Some breed) p
           = Inl m"
  shows "job_commits w r p
           = [r \<lparr> status := ''detecting'' \<rparr>,
              r \<lparr> status := ''generating_1'', breed_detected := Some breed \<rparr>,
              r \<lparr> status := ''error'', breed_detected := Some breed,
                  error_message := Some (''Error: '' @ m) \<rparr>]"
  using assms by (simp add: job_commits_def Let_def)

lemmas scenario_defs =
  scenario_world_def get_api_key_def flatten_to_rgb_def square_and_resize_def
  save_and_normalize_def ensure_png_under_4mb_def save_png_def resize_def max_size_bytes_def
  read_edit_response_def edit_image_with_gpt_image1_def finalize_with_gpt_image1_def Let_def

lemma scenario_detect:
  "detect_dog_breed scenario_world ''PNG0'' = (''beagle'', ''friendly and curious Beagle'')"
  by code_simp

lemma scenario_open:
  "pil_open scenario_world ''PNG0''
     = Inr \<lparr> pic_mode = ''RGB'', pic_width = 1024, pic_height = 1024, pic_source = ''PNG0'' \<rparr>"
  by (simp add: scenario_world_def)

lemma scenario_stage_1: "stage_1 scenario_world ''gpt_only'' ''PNG0'' prompt m = Inr ''B1''"
  by (simp add: stage_1_def scenario_defs)

lemma scenario_stage_2: "stage_2 scenario_world ''gpt_only'' ''B1'' prompt m = Inr ''B2''"
  by (simp add: stage_2_def scenario_defs)

lemma scenario_stage_3:
  "stage_3 scenario_world ''gpt_only'' ''B2'' display features = Inl ''connection reset''"
  by (simp add: stage_3_def scenario_defs)

lemma uploaded_row_original: "original_image_data uploaded_row = ''PNG0''"
  by (simp add: uploaded_row_def new_generated_image_def)

lemma scenario_commits:
  "job_commits scenario_world uploaded_row ''gpt_only''
     = [uploaded_row \<lparr> status := ''detecting'' \<rparr>,
        uploaded_row \<lparr> status := ''generating_1'', breed_detected := Some ''beagle'' \<rparr>,
        uploaded_row \<lparr> status := ''error'', breed_detected := Some ''beagle'',
          error_message :=
            Some (''Error: '' @ ''Stage 3 Error (finalizing with gpt-image-1): ''
                  @ ''connection reset'') \<rparr>]"
proof -
  have g: "generate_transformation_images scenario_world ''PNG0''
             ''friendly and curious Beagle'' (Some ''beagle'') ''gpt_only''
             = Inl (''Stage 3 Error (finalizing with gpt-image-1): '' @ ''connection reset'')"
    by (rule generate_stage_3_failure
          [OF scenario_open scenario_stage_1 scenario_stage_2 scenario_stage_3])
  show ?thesis
    using job_commits_failure [of scenario_world uploaded_row "''beagle''"
        "''friendly and curious Beagle''" "''gpt_only''"
        "''Stage 3 Error (finalizing with gpt-image-1): '' @ ''connection reset''"]
      scenario_detect g
    by (simp only: uploaded_row_original)
qed

text \<open>
  Claim C1, as stated, fails: in the scenario (classifier answers beagle, stage 1
  returns \<open>B1\<close>, stage 2 returns \<open>B2\<close>, stage 3 raises "connection reset") the job
  ends with status \<open>error\<close> and the message names stage 3 and the cause, but neither
  \<open>B1\<close> nor \<open>B2\<close> is in the row: both image columns are still unset.
\<close>

theorem stage_3_failure_counterexample:
  "stage_1 scenario_world ''gpt_only'' ''PNG0''
      (ears_prompt (ear_type_of (breed_features_of (Some ''beagle'')))
         (breed_name_display_of ''friendly and curious Beagle'' (Some ''beagle'')))
      (create_face_mask 1024 None None) = Inr ''B1''
   \<and> stage_2 scenario_world ''gpt_only'' ''B1''
      (snout_prompt (breed_name_display_of ''friendly and curious Beagle'' (Some ''beagle'')))
      (create_face_mask 1024 None None) = Inr ''B2''
   \<and> stage_3 scenario_world ''gpt_only'' ''B2''
      (breed_name_display_of ''friendly and curious Beagle'' (Some ''beagle''))
      (breed_features_of (Some ''beagle'')) = Inl ''connection reset''
   \<and> status (last (job_commits scenario_world uploaded_row ''gpt_only'')) = ''error''
   \<and> image_1_data (last (job_commits scenario_world uploaded_row ''gpt_only'')) = None
   \<and> image_2_data (last (job_commits scenario_world uploaded_row ''gpt_only'')) = None
   \<and> image_1_data (last (job_commits scenario_world uploaded_row ''gpt_only'')) \<noteq> Some ''B1''
   \<and> image_2_data (last (job_commits scenario_world uploaded_row ''gpt_only'')) \<noteq> Some ''B2''"
proof -
  have l: "last (job_commits scenario_world uploaded_row ''gpt_only'')
             = uploaded_row \<lparr> status := ''error'', breed_detected := Some ''beagle'',
                 error_message :=
                   Some (''Error: '' @ ''Stage 3 Error (finalizing with gpt-image-1): ''
                         @ ''connection reset'') \<rparr>"
    by (simp add: scenario_commits)
  have fields: "image_1_data uploaded_row = None" "image_2_data uploaded_row = None"
    by (simp_all add: uploaded_row_def new_generated_image_def)
  show ?thesis
    unfolding l
    by (simp add: scenario_stage_1 scenario_stage_2 scenario_stage_3 fields)
qed

text \<open>
  Claim C1, amended. For a job whose stage 1 and stage 2 edit calls succeed (producing
  \<open>B1\<close> and \<open>B2\<close>) and whose stage 3 edit call raises an error with message \<open>m\<close>
  (such as "connection reset"), the final persisted row has status \<open>error\<close>, the
  detected breed, and the error message "Error: Stage 3 Error (finalizing with
  gpt-image-1): " followed by \<open>m\<close>, which contains both "Stage 3" and \<open>m\<close>. The three
  image columns are as they were before the run (unset for a new job): the outputs of
  stages 1 and 2 are written to the row only after all three stages have succeeded, so
  they are not persisted. Nothing that was persisted before is rolled back apart from
  the status.
\<close>

theorem stage_3_failure_final_state:
  assumes "d image_id = Some r"
    and "detect_dog_breed w (original_image_data r) = (breed, description)"
    and "pil_open w (original_image_data r) = Inr img"
    and "stage_1 w p (original_image_data r)
           (ears_prompt (ear_type_of (breed_features_of (Some breed)))
              (breed_name_display_of description (Some breed)))
           (create_face_mask 1024 None None) = Inr b1"
    and "stage_2 w p b1 (snout_prompt (breed_name_display_of description (Some breed)))
           (create_face_mask 1024 None None) = Inr b2"
    and "stage_3 w p b2 (breed_name_display_of description (Some breed))
           (breed_features_of (Some breed)) = Inl m"
  shows "process_image_generation w d image_id p
           = d(image_id \<mapsto>
               r \<lparr> status := ''error'', breed_detected := Some breed,
                   error_message :=
                     Some (''Error: Stage 3 Error (finalizing with gpt-image-1): '' @ m) \<rparr>)
       \<and> (let final_row = the (process_image_generation w d image_id p image_id)
          in status final_row = ''error''
             \<and> breed_detected final_row = Some breed
             \<and> image_1_data final_row = image_1_data r
             \<and> image_2_data final_row = image_2_data r
             \<and> final_dog_image_data final_row = final_dog_image_data r
             \<and> original_image_data final_row = original_image_data r
             \<and> contains ''Stage 3'' (the (error_message final_row))
             \<and> contains m (the (error_message final_row)))"
proof -
  have g: "generate_transformation_images w (original_image_data r) description (Some breed) p
             = Inl (''Stage 3 Error (finalizing with gpt-image-1): '' @ m)"
    using assms(3-6) by (rule generate_stage_3_failure)
  have l: "last (job_commits w r p)
             = r \<lparr> status := ''error'', breed_detected := Some breed,
                   error_message :=
                     Some (''Error: Stage 3 Error (finalizing with gpt-image-1): '' @ m) \<rparr>"
    by (simp add: job_commits_failure [OF assms(2) g])
  have p: "process_image_generation w d image_id p
             = d(image_id \<mapsto>
                 r \<lparr> status := ''error'', breed_detected := Some breed,
                     error_message :=
                       Some (''Error: Stage 3 Error (finalizing with gpt-image-1): '' @ m) \<rparr>)"
    using process_last [of d image_id r w p] assms(1) by (simp only: l)
  have c1: "contains ''Stage 3'' (''Error: Stage 3 Error (finalizing with gpt-image-1): '' @ m)"
    using contains_append [of "''Stage 3''" "''Error: ''"
        "'' Error (finalizing with gpt-image-1): '' @ m"] by simp
  have c2: "contains m (''Error: Stage 3 Error (finalizing with gpt-image-1): '' @ m)"
    using contains_append [of m "''Error: Stage 3 Error (finalizing with gpt-image-1): ''" "[]"]
    by simp
  show ?thesis
    unfolding p Let_def using c1 c2 by simp
qed

theorem stage_3_failure_final_state_witness:
  "process_image_generation scenario_world (Map.empty (1 \<mapsto> uploaded_row)) 1 ''gpt_only''
     = Map.empty (1 \<mapsto>
         \<lparr> user_id = 7, original_image_data = ''PNG0'', breed_detected = Some ''beagle'',
           status = ''error'',
           error_message =
             Some ''Error: Stage 3 Error (finalizing with gpt-image-1): connection reset'',
           image_1_data = None, image_2_data = None, final_dog_image_data = None,
           batch_id = None, pipeline_type = Some ''gpt_only'' \<rparr>)"
proof -
  have row: "(Map.empty (1 \<mapsto> uploaded_row)) (1::nat) = Some uploaded_row" by simp
  have det: "detect_dog_breed scenario_world (original_image_data uploaded_row)
               = (''beagle'', ''friendly and curious Beagle'')"
    by (simp only: uploaded_row_original scenario_detect)
  have opn: "pil_open scenario_world (original_image_data uploaded_row)
               = Inr \<lparr> pic_mode = ''RGB'', pic_width = 1024, pic_height = 1024,
                        pic_source = ''PNG0'' \<rparr>"
    by (simp only: uploaded_row_original scenario_open)
  have s1: "stage_1 scenario_world ''gpt_only'' (original_image_data uploaded_row)
              (ears_prompt (ear_type_of (breed_features_of (Some ''beagle'')))
                 (breed_name_display_of ''friendly and curious Beagle'' (Some ''beagle'')))
              (create_face_mask 1024 None None) = Inr ''B1''"
    by (simp only: uploaded_row_original scenario_stage_1)
  note th = stage_3_failure_final_state
      [where d = "Map.empty (1 \<mapsto> uploaded_row)" and image_id = 1,
       OF row det opn s1 scenario_stage_2 scenario_stage_3]
  then have "process_image_generation scenario_world (Map.empty (1 \<mapsto> uploaded_row)) 1
               ''gpt_only''
             = Map.empty (1 \<mapsto>
                 uploaded_row \<lparr> status := ''error'', breed_detected := Some ''beagle'',
                   error_message :=
                     Some (''Error: Stage 3 Error (finalizing with gpt-image-1): ''
                           @ ''connection reset'') \<rparr>)"
    by simp
  then show ?thesis
    by (simp add: uploaded_row_def new_generated_image_def)
qed

text \<open>
  Claim C3, as stated, fails: with no credential the classifier swallows the
  configuration error and returns its default, so the job commits the status
  \<open>detecting\<close>, then \<open>generating_1\<close> together with the detected breed
  \<open>golden_retriever\<close>, and only then fails in stage 1. The failed row has a detected
  breed.
\<close>

theorem missing_credential_counterexample:
  "\<not> truthy (get_api_key no_key_world)
   \<and> map status (job_commits no_key_world uploaded_row ''gpt_only'')
       = [''detecting'', ''generating_1'', ''error'']
   \<and> map breed_detected (job_commits no_key_world uploaded_row ''gpt_only'')
       = [None, Some ''golden_retriever'', Some ''golden_retriever'']
   \<and> breed_detected (last (job_commits no_key_world uploaded_row ''gpt_only'')) \<noteq> None"
  by (simp add: no_key_job_commits [OF no_key_world_has_no_key] no_key_world_has_no_key
      uploaded_row_def new_generated_image_def)

text \<open>
  Claim C3, amended. For every job started while the credential is unset, the job ends
  with status \<open>error\<close> and no stage image is written to the row. The failure is not
  raised at the start: the classifier catches the configuration error and returns its
  default, so the run first commits the status \<open>detecting\<close>, then the status
  \<open>generating_1\<close> with the detected breed \<open>golden_retriever\<close>, and then fails at
  the first stage. When the original opens as an image the stored message is "Error:
  Stage 1 Error (adding ears): OPENAI_API_KEY is not set. Please check your .env file.";
  otherwise it is "Error: " followed by the message of the failed open.
\<close>

theorem missing_credential_final_state:
  assumes "\<not> truthy (get_api_key w)"
    and "d image_id = Some r"
  shows "map (\<lambda>c. map_option status (c image_id)) (process_image_generation_trace w d image_id p)
           = [Some ''detecting'', Some ''generating_1'', Some ''error'']
       \<and> map (\<lambda>c. map_option breed_detected (c image_id))
            (process_image_generation_trace w d image_id p)
           = [Some (breed_detected r), Some (Some ''golden_retriever''),
              Some (Some ''golden_retriever'')]
       \<and> (\<forall>c \<in> set (process_image_generation_trace w d image_id p).
             map_option image_1_data (c image_id) = Some (image_1_data r)
             \<and> map_option image_2_data (c image_id) = Some (image_2_data r)
             \<and> map_option final_dog_image_data (c image_id) = Some (final_dog_image_data r))
       \<and> process_image_generation w d image_id p
           = d(image_id \<mapsto>
               r \<lparr> status := ''error'', breed_detected := Some ''golden_retriever'',
                   error_message :=
                     Some (''Error: ''
                           @ (case pil_open w (original_image_data r) of
                                Inl e \<Rightarrow> e
                              | Inr img \<Rightarrow>
                                  ''Stage 1 Error (adding ears): ''
                                  @ ''OPENAI_API_KEY is not set. Please check your .env file.'')) \<rparr>)"
proof -
  note jc = no_key_job_commits [OF assms(1), of r p]
  have tr: "process_image_generation_trace w d image_id p
              = map (\<lambda>x. d(image_id \<mapsto> x)) (job_commits w r p)"
    using assms(2) by (simp add: process_image_generation_trace_def)
  have a: "map (\<lambda>c. map_option status (c image_id))
             (process_image_generation_trace w d image_id p)
             = [Some ''detecting'', Some ''generating_1'', Some ''error'']"
    by (simp add: tr jc)
  have b: "map (\<lambda>c. map_option breed_detected (c image_id))
             (process_image_generation_trace w d image_id p)
             = [Some (breed_detected r), Some (Some ''golden_retriever''),
                Some (Some ''golden_retriever'')]"
    by (simp add: tr jc)
  have c: "\<forall>c \<in> set (process_image_generation_trace w d image_id p).
             map_option image_1_data (c image_id) = Some (image_1_data r)
             \<and> map_option image_2_data (c image_id) = Some (image_2_data r)
             \<and> map_option final_dog_image_data (c image_id) = Some (final_dog_image_data r)"
    by (simp add: tr jc)
  have e: "process_image_generation w d image_id p
           = d(image_id \<mapsto>
               r \<lparr> status := ''error'', breed_detected := Some ''golden_retriever'',
                   error_message :=
                     Some (''Error: ''
                           @ (case pil_open w (original_image_data r) of
                                Inl e \<Rightarrow> e
                              | Inr img \<Rightarrow>
                                  ''Stage 1 Error (adding ears): ''
                                  @ ''OPENAI_API_KEY is not set. Please check your .env file.'')) \<rparr>)"
    using process_last [of d image_id r w p] assms(2)
    by (cases "pil_open w (original_image_data r)") (simp_all add: jc api_key_error_def)
  show ?thesis by (rule conjI [OF a conjI [OF b conjI [OF c e]]])
qed

theorem missing_credential_final_state_witness:
  "process_image_generation no_key_world (Map.empty (1 \<mapsto> uploaded_row)) 1 ''dalle_gpt''
     = Map.empty (1 \<mapsto>
         \<lparr> user_id = 7, original_image_data = ''PNG0'',
           breed_detected = Some ''golden_retriever'', status = ''error'',
           error_message =
             Some (''Error: Stage 1 Error (adding ears): ''
                   @ ''OPENAI_API_KEY is not set. Please check your .env file.''),
           image_1_data = None, image_2_data = None, final_dog_image_data = None,
           batch_id = None, pipeline_type = Some ''gpt_only'' \<rparr>)"
proof -
  have row: "(Map.empty (1 \<mapsto> uploaded_row)) (1::nat) = Some uploaded_row" by simp
  have opn: "pil_open no_key_world ''PNG0''
               = Inr \<lparr> pic_mode = ''RGB'', pic_width = 1024, pic_height = 1024,
                        pic_source = ''PNG0'' \<rparr>"
    by (simp add: no_key_world_def offline_world_def)
  from missing_credential_final_state
      [where d = "Map.empty (1 \<mapsto> uploaded_row)" and image_id = 1 and p = "''dalle_gpt''",
       OF no_key_world_has_no_key row]
  have "process_image_generation no_key_world (Map.empty (1 \<mapsto> uploaded_row)) 1 ''dalle_gpt''
           = Map.empty (1 \<mapsto>
               uploaded_row \<lparr> status := ''error'', breed_detected := Some ''golden_retriever'',
                   error_message :=
                     Some (''Error: ''
                           @ (case pil_open no_key_world (original_image_data uploaded_row) of
                                Inl e \<Rightarrow> e
                              | Inr img \<Rightarrow>
                                  ''Stage 1 Error (adding ears): ''
                                  @ ''OPENAI_API_KEY is not set. Please check your .env file.'')) \<rparr>)"
    by simp
  then show ?thesis
    by (simp add: opn uploaded_row_def new_generated_image_def)
qed

subsection \<open>Breed Classifier: parsing\<close>

lemma lower_char_brace: "(CHR ''{'' = lower_char c) = (c = CHR ''{'')"
  by (auto simp: lower_char_def)

lemma lower_no_brace: "CHR ''{'' \<notin> set pre \<Longrightarrow> CHR ''{'' \<notin> set (lower pre)"
  by (induction pre) (auto simp: lower_def lower_char_brace)

lemma lower_append: "lower (a @ b) = lower a @ lower b"
  by (simp add: lower_def)

lemma json_search_skip: "CHR ''{'' \<notin> set pre \<Longrightarrow> json_search (pre @ s) = json_search s"
  by (induction pre) auto


lemma lower_husky_json: "lower husky_json = husky_json"
  by (simp add: husky_json_def lower_def lower_char_def dquote_def)

lemma json_search_husky: "json_search (husky_json @ post) = Some ''husky''"
  by (simp add: husky_json_def dquote_def breed_field_value_def is_space_def)

lemma json_step_husky:
  assumes "CHR ''{'' \<notin> set pre"
  shows "json_step (lower (pre @ husky_json @ post)) = Some ''husky''"
proof -
  have "json_search (lower (pre @ husky_json @ post)) = Some ''husky''"
    using assms
    by (simp add: lower_append lower_husky_json json_search_skip lower_no_brace json_search_husky)
  moreover have "lower (strip ''husky'') = ''husky''"
    by (simp add: strip_def is_space_def lower_def lower_char_def)
  moreover have "''husky'' \<in> set breed_keys"
    by (simp add: breed_keys_def DOG_BREEDS_def)
  ultimately show ?thesis by (simp add: json_step_def Let_def)
qed

lemma word_search_from_intro:
  assumes "pat \<noteq> []"
    and "(if pre = [] then prev else is_word (last pre)) \<noteq> is_word (hd pat)"
    and "is_word (last pat) \<noteq> next_is_word rest"
  shows "word_search_from prev pat (pre @ pat @ rest)"
  using assms
proof (induction pre arbitrary: prev)
  case Nil
  then obtain a as where pat: "pat = a # as" by (cases pat) auto
  have "prefix pat (pat @ rest)" by simp
  moreover have "drop (length pat) (pat @ rest) = rest" by simp
  ultimately have "word_search_from prev pat (a # (as @ rest))"
    using Nil pat by (simp del: prefix_code)
  then show ?case using pat by simp
next
  case (Cons x pre')
  have "(if pre' = [] then is_word x else is_word (last pre')) \<noteq> is_word (hd pat)"
    using Cons.prems(2) by (simp split: if_splits)
  from Cons.IH [OF Cons.prems(1) this Cons.prems(3)]
  show ?case by simp
qed

lemma word_search_from_elim:
  assumes "word_search_from prev pat hay"
  shows "\<exists>pre rest. hay = pre @ pat @ rest \<and> pat \<noteq> []
           \<and> (if pre = [] then prev else is_word (last pre)) \<noteq> is_word (hd pat)
           \<and> is_word (last pat) \<noteq> next_is_word rest"
  using assms
proof (induction hay arbitrary: prev)
  case Nil
  then show ?case by simp
next
  case (Cons c cs)
  show ?case
  proof (cases "pat \<noteq> [] \<and> prefix pat (c # cs) \<and> prev \<noteq> is_word (hd pat)
                  \<and> is_word (last pat) \<noteq> next_is_word (drop (length pat) (c # cs))")
    case True
    then obtain rest where r: "c # cs = pat @ rest" by (auto simp: prefix_def)
    then have "drop (length pat) (c # cs) = rest" by simp
    with True r have "c # cs = [] @ pat @ rest \<and> pat \<noteq> []
           \<and> (if [] = ([]::string) then prev else is_word (last [])) \<noteq> is_word (hd pat)
           \<and> is_word (last pat) \<noteq> next_is_word rest" by simp
    then show ?thesis by blast
  next
    case False
    with Cons.prems have "word_search_from (is_word c) pat cs" by auto
    from Cons.IH [OF this] obtain pre rest where
      d: "cs = pre @ pat @ rest" "pat \<noteq> []"
         "(if pre = [] then is_word c else is_word (last pre)) \<noteq> is_word (hd pat)"
         "is_word (last pat) \<noteq> next_is_word rest" by blast
    then have "c # cs = (c # pre) @ pat @ rest \<and> pat \<noteq> []
           \<and> (if c # pre = [] then prev else is_word (last (c # pre))) \<noteq> is_word (hd pat)
           \<and> is_word (last pat) \<noteq> next_is_word rest" by (simp split: if_splits)
    then show ?thesis by blast
  qed
qed

lemma siberian_husky_is_husky:
  assumes "word_search ''siberian husky'' hay"
  shows "word_search ''husky'' hay"
proof -
  from assms obtain pre rest where
    d: "hay = pre @ ''siberian husky'' @ rest"
       "is_word (last ''siberian husky'') \<noteq> next_is_word rest"
    unfolding word_search_def by (blast dest: word_search_from_elim)
  have t: "hay = (pre @ ''siberian '') @ ''husky'' @ rest" using d(1) by simp
  have nw: "\<not> is_word CHR '' ''"
    by (simp add: is_word_def is_lower_letter_def is_upper_letter_def)
  have hw: "is_word CHR ''h''"
    by (simp add: is_word_def is_lower_letter_def)
  have before: "(if pre @ ''siberian '' = [] then False else is_word (last (pre @ ''siberian '')))
                  \<noteq> is_word (hd ''husky'')"
    using nw hw by simp
  have after: "is_word (last ''husky'') \<noteq> next_is_word rest" using d(2) by simp
  have "word_search_from False ''husky'' ((pre @ ''siberian '') @ ''husky'' @ rest)"
    by (rule word_search_from_intro [OF _ before after]) simp
  then show ?thesis by (simp only: word_search_def t)
qed

lemma breed_keys_list:
  "breed_keys = [''golden_retriever'', ''labrador'', ''german_shepherd'', ''poodle'',
                 ''bulldog'', ''beagle'', ''husky'', ''dachshund'']"
  by (simp add: breed_keys_def DOG_BREEDS_def)

lemma key_has_description:
  "k \<in> set breed_keys \<Longrightarrow> \<exists>fs d. map_of DOG_BREEDS k = Some (fs, d)"
  by (auto simp: breed_keys_def DOG_BREEDS_def)

lemma direct_key_step_husky:
  assumes "\<forall>key \<in> set [''golden_retriever'', ''labrador'', ''german_shepherd'', ''poodle'',
                         ''bulldog'', ''beagle''].
             \<not> word_search key r \<and> \<not> word_search (replace_char CHR ''_'' CHR '' '' key) r"
    and "word_search ''husky'' r"
  shows "direct_key_step r = Some ''husky''"
proof -
  let ?P = "\<lambda>key. word_search key r \<or> word_search (replace_char CHR ''_'' CHR '' '' key) r"
  have no: "\<not> ?P ''golden_retriever''" "\<not> ?P ''labrador''" "\<not> ?P ''german_shepherd''"
    "\<not> ?P ''poodle''" "\<not> ?P ''bulldog''" "\<not> ?P ''beagle''"
    using assms(1) by simp_all
  have yes: "?P ''husky''" using assms(2) by simp
  have "find ?P [''golden_retriever'', ''labrador'', ''german_shepherd'', ''poodle'',
                 ''bulldog'', ''beagle'', ''husky'', ''dachshund''] = Some ''husky''"
    by (simp only: find.simps no yes if_False if_True)
  then show ?thesis by (simp only: direct_key_step_def breed_keys_list)
qed

lemma ascii_append: "ascii_text (a @ b) = (ascii_text a \<and> ascii_text b)"
  by (simp add: ascii_text_def)

lemma ascii_husky_json: "ascii_text husky_json"
  by (simp add: ascii_text_def husky_json_def dquote_def)

lemma no_brace_no_json: "CHR ''{'' \<notin> set r \<Longrightarrow> json_search (lower r) = None"
  using json_search_skip [of "lower r" "[]"] lower_no_brace [of r] by simp

lemma json_search_none_step: "json_search r = None \<Longrightarrow> json_step r = None"
  by (simp add: json_step_def)

lemma no_key_no_direct_step:
  assumes "\<forall>key \<in> set breed_keys.
             \<not> word_search key r \<and> \<not> word_search (replace_char CHR ''_'' CHR '' '' key) r"
  shows "direct_key_step r = None"
  using assms by (simp add: direct_key_step_def find_None_iff)

lemma no_variant_no_mapping_step:
  assumes "\<forall>variant \<in> set (map fst breed_mapping). \<not> word_search variant r"
  shows "mapping_step r = None"
  using assms by (auto simp: mapping_step_def find_None_iff)

lemma refusal_text_steps:
  "ascii_text ''Sorry, I can't help with that''
   \<and> json_step (lower ''Sorry, I can't help with that'') = None
   \<and> direct_key_step (lower ''Sorry, I can't help with that'') = None
   \<and> mapping_step (lower ''Sorry, I can't help with that'') = None
   \<and> is_refusal (lower ''Sorry, I can't help with that'')"
  by code_simp

lemma select_refusal_text:
  "select_breed w ''Sorry, I can't help with that'' = breed_keys ! (random_index w mod 8)"
  using refusal_text_steps
  by (simp add: select_breed_def random_choice_def breed_keys_list)

lemma select_examples:
  "select_breed w husky_json = ''husky''"
  "select_breed w ''Siberian Husky'' = ''husky''"
  "select_breed w ''qwertyuiop asdf'' = ''golden_retriever''"
  "select_breed w (breed_json ''alsatian'') = ''german_shepherd''"
  "select_breed w (breed_json ''wiener dog'') = ''dachshund''"
  "select_breed w ''It reminds me of a wiener dog.'' = ''dachshund''"
  "select_breed w ''An Alsatian, I think.'' = ''german_shepherd''"
  "select_breed w (''Not labrador. '' @ breed_json '' husky '') = ''husky''"
  "select_breed w (''A labrador? '' @ husky_json @ '' or poodle'') = ''husky''"
  "select_breed w ''alsatian or maybe husky'' = ''husky''"
  "select_breed w ''Sorry, a wiener dog'' = ''dachshund''"
  "select_breed w (''Not a poodle. '' @ breed_json ''alsatian'') = ''german_shepherd''"
  "select_breed w (''{'' @ dquote # ''breed'' @ dquote # '': '' @ dquote # ''poodle'' @ dquote
                    # '', '' @ tl husky_json) = ''husky''"
  "select_breed w ''husky or poodle'' = ''poodle''"
  "select_breed w ''husky and golden retriever'' = ''golden_retriever''"
  "select_breed w ''my huskys'' = ''golden_retriever''"
  by code_simp+

lemma select_cannot_help:
  "select_breed w ''I can't help here'' = breed_keys ! (random_index w mod 8)"
proof -
  have "ascii_text ''I can't help here''
        \<and> json_step (lower ''I can't help here'') = None
        \<and> direct_key_step (lower ''I can't help here'') = None
        \<and> mapping_step (lower ''I can't help here'') = None
        \<and> is_refusal (lower ''I can't help here'')"
    by code_simp
  then show ?thesis
    by (simp add: select_breed_def random_choice_def breed_keys_list)
qed

text \<open>
  Claim C4, as stated, fails: "a response containing" is too wide, because an earlier
  match wins. A response that contains \<^verbatim>\<open>{"breed": "husky"}\<close> after an object for
  \<open>poodle\<close> gives \<open>poodle\<close>; a response with no JSON that contains the standalone
  phrase "Siberian Husky" after the word "poodle" gives \<open>poodle\<close>; and a response
  with refusal language that also names a breed gives that breed, whatever the random
  source draws.
\<close>

theorem select_breed_containing_counterexample:
  "contains husky_json (breed_json ''poodle'' @ '' '' @ husky_json)
   \<and> select_breed offline_world (breed_json ''poodle'' @ '' '' @ husky_json) = ''poodle''
   \<and> json_search (lower ''Either a poodle or a Siberian Husky'') = None
   \<and> word_search ''siberian husky'' (lower ''Either a poodle or a Siberian Husky'')
   \<and> select_breed offline_world ''Either a poodle or a Siberian Husky'' = ''poodle''
   \<and> is_refusal (lower ''Sorry, I can't help with that poodle'')
   \<and> select_breed (offline_world \<lparr> random_index := 6 \<rparr>)
         ''Sorry, I can't help with that poodle'' = ''poodle''
   \<and> select_breed (offline_world \<lparr> random_index := 6 \<rparr>)
         ''Sorry, I can't help with that'' = ''husky''"
  by code_simp

text \<open>
  Claim C4, amended. For a response in ASCII the parsing follows the first-match-wins
  order, with these outcomes.
  \<^item> A response that contains \<^verbatim>\<open>{"breed": "husky"}\<close> with no opening brace before it
    gives \<open>husky\<close>, whatever text follows. The value of the JSON field is stripped,
    and it may be a key or a synonym (\<open>alsatian\<close> gives \<open>german_shepherd\<close>,
    \<open>wiener dog\<close> gives \<open>dachshund\<close>).
  \<^item> A response with no JSON breed field that contains the standalone phrase "Siberian
    Husky" (in any letter case) and in which none of the six keys listed before
    \<open>husky\<close> occurs as a whole word gives \<open>husky\<close>. Among the keys the order
    of the key list decides, not the order in the text; a key may be written with
    spaces for underscores; a key wins over a synonym, and a synonym found as a whole word
    gives its key.
  \<^item> A response with no opening brace in which no key and no synonym occurs as a whole
    word and which contains "sorry" or "can't help" gives the key at the position the
    random source draws among the eight distinct keys, so each of the eight draws gives
    another key; it never fails. That the draw is uniform is a property of
    \<open>random.choice\<close> and not part of this statement.
  \<^item> A response with no opening brace, no key, no synonym and no refusal language gives
    \<open>golden_retriever\<close>.
  The four inputs of the specification give \<open>husky\<close>, \<open>husky\<close>, the drawn key
  and \<open>golden_retriever\<close>. For every response the result is one of the eight keys,
  and it is the key \<open>detect_dog_breed\<close> returns when the first model answers with
  that response.
\<close>

theorem select_breed_first_match_wins:
  "(ascii_text pre \<and> ascii_text post \<and> CHR ''{'' \<notin> set pre
      \<longrightarrow> select_breed w (pre @ husky_json @ post) = ''husky'')
   \<and> (ascii_text resp \<and> json_search (lower resp) = None
        \<and> (\<forall>key \<in> set [''golden_retriever'', ''labrador'', ''german_shepherd'', ''poodle'',
                          ''bulldog'', ''beagle''].
              \<not> word_search key (lower resp)
              \<and> \<not> word_search (replace_char CHR ''_'' CHR '' '' key) (lower resp))
        \<and> word_search ''siberian husky'' (lower resp)
        \<longrightarrow> select_breed w resp = ''husky'')
   \<and> (ascii_text resp \<and> CHR ''{'' \<notin> set resp
        \<and> (\<forall>key \<in> set breed_keys.
              \<not> word_search key (lower resp)
              \<and> \<not> word_search (replace_char CHR ''_'' CHR '' '' key) (lower resp))
        \<and> (\<forall>variant \<in> set (map fst breed_mapping). \<not> word_search variant (lower resp))
        \<longrightarrow> select_breed w resp
              = (if contains ''sorry'' (lower resp) \<or> contains ''can't help'' (lower resp)
                 then breed_keys ! (random_index w mod 8) else ''golden_retriever''))
   \<and> select_breed w resp \<in> set breed_keys
   \<and> length breed_keys = 8 \<and> distinct breed_keys
   \<and> (\<forall>i < 8. select_breed (w \<lparr> random_index := i \<rparr>) ''Sorry, I can't help with that''
                  = breed_keys ! i)
   \<and> select_breed w husky_json = ''husky''
   \<and> select_breed w ''Siberian Husky'' = ''husky''
   \<and> select_breed w ''Sorry, I can't help with that'' = breed_keys ! (random_index w mod 8)
   \<and> select_breed w ''qwertyuiop asdf'' = ''golden_retriever''
   \<and> select_breed w (breed_json ''alsatian'') = ''german_shepherd''
   \<and> select_breed w (breed_json ''wiener dog'') = ''dachshund''
   \<and> select_breed w ''It reminds me of a wiener dog.'' = ''dachshund''
   \<and> select_breed w ''An Alsatian, I think.'' = ''german_shepherd''
   \<and> select_breed w (''Not labrador. '' @ breed_json '' husky '') = ''husky''
   \<and> select_breed w (''A labrador? '' @ husky_json @ '' or poodle'') = ''husky''
   \<and> select_breed w ''alsatian or maybe husky'' = ''husky''
   \<and> select_breed w ''Sorry, a wiener dog'' = ''dachshund''
   \<and> select_breed w (''Not a poodle. '' @ breed_json ''alsatian'') = ''german_shepherd''
   \<and> select_breed w (''{'' @ dquote # ''breed'' @ dquote # '': '' @ dquote # ''poodle'' @ dquote
                       # '', '' @ tl husky_json) = ''husky''
   \<and> select_breed w ''husky or poodle'' = ''poodle''
   \<and> select_breed w ''husky and golden retriever'' = ''golden_retriever''
   \<and> select_breed w ''my huskys'' = ''golden_retriever''
   \<and> select_breed w ''I can't help here'' = breed_keys ! (random_index w mod 8)
   \<and> (truthy (get_api_key w) \<and> pil_open w image_path = Inr img
        \<and> pic_mode img = ''RGB'' \<and> pic_width img \<le> 2048 \<and> pic_height img \<le> 2048
        \<and> chat_create w ''gpt-4o-mini'' img = Inr (Some content # others)
        \<longrightarrow> fst (detect_dog_breed w image_path) = select_breed w (strip content))"
proof -
  have a: "ascii_text pre \<and> ascii_text post \<and> CHR ''{'' \<notin> set pre
             \<longrightarrow> select_breed w (pre @ husky_json @ post) = ''husky''"
    by (simp add: select_breed_def json_step_husky ascii_append ascii_husky_json
        del: lower_append)
  have b: "ascii_text resp \<and> json_search (lower resp) = None
        \<and> (\<forall>key \<in> set [''golden_retriever'', ''labrador'', ''german_shepherd'', ''poodle'',
                          ''bulldog'', ''beagle''].
              \<not> word_search key (lower resp)
              \<and> \<not> word_search (replace_char CHR ''_'' CHR '' '' key) (lower resp))
        \<and> word_search ''siberian husky'' (lower resp)
        \<longrightarrow> select_breed w resp = ''husky''"
  proof
    assume h: "ascii_text resp \<and> json_search (lower resp) = None
        \<and> (\<forall>key \<in> set [''golden_retriever'', ''labrador'', ''german_shepherd'', ''poodle'',
                          ''bulldog'', ''beagle''].
              \<not> word_search key (lower resp)
              \<and> \<not> word_search (replace_char CHR ''_'' CHR '' '' key) (lower resp))
        \<and> word_search ''siberian husky'' (lower resp)"
    then have "word_search ''husky'' (lower resp)" by (blast intro: siberian_husky_is_husky)
    with h have d: "direct_key_step (lower resp) = Some ''husky''"
      by (blast intro: direct_key_step_husky)
    from h have j: "json_step (lower resp) = None" by (blast intro: json_search_none_step)
    from h d j show "select_breed w resp = ''husky''" by (simp add: select_breed_def)
  qed
  have len: "length breed_keys = 8" by (simp add: breed_keys_list)
  have dist: "distinct breed_keys" by (simp add: breed_keys_list)
  have key: "select_breed w resp \<in> set breed_keys" by (rule select_breed_is_key)
  have c: "ascii_text resp \<and> CHR ''{'' \<notin> set resp
        \<and> (\<forall>key \<in> set breed_keys.
              \<not> word_search key (lower resp)
              \<and> \<not> word_search (replace_char CHR ''_'' CHR '' '' key) (lower resp))
        \<and> (\<forall>variant \<in> set (map fst breed_mapping). \<not> word_search variant (lower resp))
        \<longrightarrow> select_breed w resp
              = (if contains ''sorry'' (lower resp) \<or> contains ''can't help'' (lower resp)
                 then breed_keys ! (random_index w mod 8) else ''golden_retriever'')"
  proof
    assume h: "ascii_text resp \<and> CHR ''{'' \<notin> set resp
        \<and> (\<forall>key \<in> set breed_keys.
              \<not> word_search key (lower resp)
              \<and> \<not> word_search (replace_char CHR ''_'' CHR '' '' key) (lower resp))
        \<and> (\<forall>variant \<in> set (map fst breed_mapping). \<not> word_search variant (lower resp))"
    then have j: "json_step (lower resp) = None"
      by (blast intro: json_search_none_step no_brace_no_json)
    from h have d: "direct_key_step (lower resp) = None"
      by (blast intro: no_key_no_direct_step)
    from h have m: "mapping_step (lower resp) = None"
      by (blast intro: no_variant_no_mapping_step)
    have ll: "lower (lower resp) = lower resp"
      by (simp add: lower_def lower_char_def)
    from h j d m show "select_breed w resp
              = (if contains ''sorry'' (lower resp) \<or> contains ''can't help'' (lower resp)
                 then breed_keys ! (random_index w mod 8) else ''golden_retriever'')"
      by (simp add: select_breed_def is_refusal_def random_choice_def len ll)
  qed
  have u: "\<forall>i < 8. select_breed (w \<lparr> random_index := i \<rparr>) ''Sorry, I can't help with that''
                  = breed_keys ! i"
    by (simp add: select_refusal_text)
  have e: "truthy (get_api_key w) \<and> pil_open w image_path = Inr img
        \<and> pic_mode img = ''RGB'' \<and> pic_width img \<le> 2048 \<and> pic_height img \<le> 2048
        \<and> chat_create w ''gpt-4o-mini'' img = Inr (Some content # others)
        \<longrightarrow> fst (detect_dog_breed w image_path) = select_breed w (strip content)"
  proof
    assume h: "truthy (get_api_key w) \<and> pil_open w image_path = Inr img
        \<and> pic_mode img = ''RGB'' \<and> pic_width img \<le> 2048 \<and> pic_height img \<le> 2048
        \<and> chat_create w ''gpt-4o-mini'' img = Inr (Some content # others)"
    obtain fs ds where look: "map_of DOG_BREEDS (select_breed w (strip content)) = Some (fs, ds)"
      using key_has_description [OF select_breed_is_key [of w "strip content"]] by blast
    from h have small: "\<not> 2048 < max (pic_width img) (pic_height img)" by auto
    from h look small
    show "fst (detect_dog_breed w image_path) = select_breed w (strip content)"
      by (simp add: detect_dog_breed_def detect_dog_breed_body_def convert_rgb_def Let_def)
  qed
  note x = select_examples [of w]
  show ?thesis
    by (rule conjI [OF a conjI [OF b conjI [OF c conjI [OF key conjI [OF len conjI [OF dist
          conjI [OF u conjI [OF x(1) conjI [OF x(2) conjI [OF select_refusal_text
          conjI [OF x(3) conjI [OF x(4) conjI [OF x(5) conjI [OF x(6) conjI [OF x(7)
          conjI [OF x(8) conjI [OF x(9) conjI [OF x(10) conjI [OF x(11) conjI [OF x(12)
          conjI [OF x(13) conjI [OF x(14) conjI [OF x(15) conjI [OF x(16)
          conjI [OF select_cannot_help e]]]]]]]]]]]]]]]]]]]]]]]]])
qed

lemma phrase_steps:
  "ascii_text ''I think Siberian Husky fits best.''
   \<and> json_search (lower ''I think Siberian Husky fits best.'') = None
   \<and> (\<forall>key \<in> set [''golden_retriever'', ''labrador'', ''german_shepherd'', ''poodle'',
                     ''bulldog'', ''beagle''].
         \<not> word_search key (lower ''I think Siberian Husky fits best.'')
         \<and> \<not> word_search (replace_char CHR ''_'' CHR '' '' key)
               (lower ''I think Siberian Husky fits best.''))
   \<and> word_search ''siberian husky'' (lower ''I think Siberian Husky fits best.'')"
  by code_simp

lemma no_match_steps:
  "ascii_text s \<and> CHR ''{'' \<notin> set s
   \<and> (\<forall>key \<in> set breed_keys.
         \<not> word_search key (lower s)
         \<and> \<not> word_search (replace_char CHR ''_'' CHR '' '' key) (lower s))
   \<and> (\<forall>variant \<in> set (map fst breed_mapping). \<not> word_search variant (lower s))"
  if "s = ''Sorry, I can't help with that'' \<or> s = ''qwertyuiop asdf''"
  using that by (elim disjE; hypsubst; code_simp)

theorem select_breed_first_match_wins_witness:
  "select_breed offline_world (''Here you go: '' @ husky_json @ '' Enjoy, not a poodle!'')
     = ''husky''
   \<and> select_breed offline_world ''I think Siberian Husky fits best.'' = ''husky''
   \<and> select_breed (offline_world \<lparr> random_index := 14 \<rparr>) ''Sorry, I can't help with that''
       = ''husky''
   \<and> select_breed offline_world ''qwertyuiop asdf'' = ''golden_retriever''"
proof -
  have pp: "ascii_text ''Here you go: '' \<and> ascii_text '' Enjoy, not a poodle!''
            \<and> CHR ''{'' \<notin> set ''Here you go: ''"
    by (simp add: ascii_text_def)
  have a: "select_breed offline_world (''Here you go: '' @ husky_json @ '' Enjoy, not a poodle!'')
             = ''husky''"
    using select_breed_first_match_wins
      [where pre = "''Here you go: ''" and post = "'' Enjoy, not a poodle!''"
         and w = offline_world] pp
    by blast
  have b: "select_breed offline_world ''I think Siberian Husky fits best.'' = ''husky''"
    using select_breed_first_match_wins
      [where resp = "''I think Siberian Husky fits best.''" and w = offline_world]
      phrase_steps
    by blast
  have rf: "contains ''sorry'' (lower ''Sorry, I can't help with that'')" by code_simp
  have r6: "random_index (offline_world \<lparr> random_index := 14 \<rparr>) mod 8 = 6" by simp
  have k6: "breed_keys ! 6 = ''husky''" by (simp add: breed_keys_list)
  have c: "select_breed (offline_world \<lparr> random_index := 14 \<rparr>) ''Sorry, I can't help with that''
             = ''husky''"
    using select_breed_first_match_wins
      [where resp = "''Sorry, I can't help with that''"
         and w = "offline_world \<lparr> random_index := 14 \<rparr>"]
      no_match_steps [of "''Sorry, I can't help with that''"] rf r6 k6
    by simp
  have ng: "\<not> (contains ''sorry'' (lower ''qwertyuiop asdf'')
               \<or> contains ''can't help'' (lower ''qwertyuiop asdf''))" by code_simp
  have d: "select_breed offline_world ''qwertyuiop asdf'' = ''golden_retriever''"
    using select_breed_first_match_wins
      [where resp = "''qwertyuiop asdf''" and w = offline_world]
      no_match_steps [of "''qwertyuiop asdf''"] ng
    by simp
  from a b c d show ?thesis by simp
qed

end
